theory Spec2Isabelle
  imports Complex_Main "HOL-Library.Sublist"
begin

section \<open>JavaScript string operations used by the clients\<close>

text \<open>
  A string is the list of the bytes of its UTF-8 encoding, so that every well-formed JavaScript
  string has a value here (a string with an unpaired surrogate has none). The operations below
  look at ASCII text only (\<open>'\n'\<close>, \<open>'data: '\<close>, \<open>'[DONE]'\<close>), except \<open>trim\<close>.

  \<open>String.prototype.trim\<close> removes the code points of WhiteSpace and LineTerminator at both
  ends: U+0009 to U+000D and U+0020 (one byte each), U+00A0 (two bytes), and U+1680, U+2000 to
  U+200A, U+2028, U+2029, U+202F, U+205F, U+3000 and U+FEFF (three bytes each).
\<close>

definition white1 :: "char \<Rightarrow> bool" where
  "white1 a = (a \<in> set [CHR 0x09, CHR 0x0A, CHR 0x0B, CHR 0x0C, CHR 0x0D, CHR 0x20])"

definition white2 :: "char \<Rightarrow> char \<Rightarrow> bool" where
  "white2 a b = (a = CHR 0xC2 \<and> b = CHR 0xA0)"

definition white3 :: "char \<Rightarrow> char \<Rightarrow> char \<Rightarrow> bool" where
  "white3 a b c =
     ((a = CHR 0xE1 \<and> b = CHR 0x9A \<and> c = CHR 0x80) \<or>
      (a = CHR 0xE2 \<and> b = CHR 0x80 \<and>
         c \<in> set [CHR 0x80, CHR 0x81, CHR 0x82, CHR 0x83, CHR 0x84, CHR 0x85, CHR 0x86, CHR 0x87,
                  CHR 0x88, CHR 0x89, CHR 0x8A, CHR 0xA8, CHR 0xA9, CHR 0xAF]) \<or>
      (a = CHR 0xE2 \<and> b = CHR 0x81 \<and> c = CHR 0x9F) \<or>
      (a = CHR 0xE3 \<and> b = CHR 0x80 \<and> c = CHR 0x80) \<or>
      (a = CHR 0xEF \<and> b = CHR 0xBB \<and> c = CHR 0xBF))"

text \<open>
  Removing the white space at the front of a byte list; the three predicates say which
  sequences of one, two and three bytes are white space.
\<close>

fun strip ::
  "(char \<Rightarrow> bool) \<Rightarrow> (char \<Rightarrow> char \<Rightarrow> bool) \<Rightarrow> (char \<Rightarrow> char \<Rightarrow> char \<Rightarrow> bool) \<Rightarrow> string \<Rightarrow> string" where
  "strip w1 w2 w3 (a # b # c # s) =
     (if w1 a then strip w1 w2 w3 (b # c # s)
      else if w2 a b then strip w1 w2 w3 (c # s)
      else if w3 a b c then strip w1 w2 w3 s
      else a # b # c # s)"
| "strip w1 w2 w3 [a, b] =
     (if w1 a then strip w1 w2 w3 [b] else if w2 a b then [] else [a, b])"
| "strip w1 w2 w3 [a] = (if w1 a then [] else [a])"
| "strip w1 w2 w3 [] = []"

definition trimStart :: "string \<Rightarrow> string" where
  "trimStart s = strip white1 white2 white3 s"

definition trimEnd :: "string \<Rightarrow> string" where
  \<comment> \<open>the same from the end: on the reversed bytes, with each sequence read backwards\<close>
  "trimEnd s = rev (strip white1 (\<lambda>b a. white2 a b) (\<lambda>c b a. white3 a b c) (rev s))"

definition trim :: "string \<Rightarrow> string" where
  "trim s = trimEnd (trimStart s)"

text \<open>\<open>s.split('\n')\<close>: the pieces between line feeds; never an empty array.\<close>

fun split_lines :: "string \<Rightarrow> string list" where
  "split_lines [] = [[]]"
| "split_lines (c # cs) =
     (if c = CHR 0x0A then [] # split_lines cs
      else (case split_lines cs of
              [] \<Rightarrow> [[c]]
            | l # ls \<Rightarrow> (c # l) # ls))"

definition startsWith :: "string \<Rightarrow> string \<Rightarrow> bool" where
  "startsWith s p = (take (length p) s = p)"

section \<open>Wire types of the frontend (types/api.ts, statelessApi.ts)\<close>

record ChatSource =
  page :: int
  chunk_id :: string
  src_content :: string
  relevance_score :: real

datatype Role = user | assistant

record ChatMessage =
  role :: Role
  content :: string
  sources :: "ChatSource list option"

text \<open>
  \<open>StreamEvent\<close> is what \<open>JSON.parse(data) as StreamEvent\<close> yields: the cast is unchecked, so
  the \<open>type\<close> field is an arbitrary string at run time, and both other fields are optional.
  Parsed values that are not objects of this shape are not represented.
\<close>

record StreamEvent =
  ev_type :: string
  ev_content :: "string option"
  ev_sources :: "ChatSource list option"

record ChunkMetadata =
  meta_page :: nat
  chunk_index :: nat
  meta_total_chunks :: nat

record ProcessedPDF =
  file_id :: string
  filename :: string
  page_count :: nat
  chunk_count :: nat
  chunks :: "string list"
  embeddings :: "real list list"
  chunk_metadata :: "ChunkMetadata list"

record StatelessChatRequest =
  req_message :: string
  req_chunks :: "string list"
  req_embeddings :: "real list list"
  req_chunk_metadata :: "ChunkMetadata list"
  req_history :: "ChatMessage list option"

record ChatRequest =
  cr_file_id :: string
  cr_message :: string
  cr_history :: "ChatMessage list option"

text \<open>
  A JavaScript \<open>Error\<close> with its message; \<open>HttpError n\<close> stands for the error whose message is
  \<open>HTTP error! status: n\<close>.
\<close>

datatype ClientError = Error string | HttpError nat

section \<open>The stateless client (statelessApi.ts)\<close>

text \<open>The private field \<open>storedPDFData: Map<string, ProcessedPDF>\<close>.\<close>

type_synonym PDFStore = "string \<rightharpoonup> ProcessedPDF"

definition storePDF :: "PDFStore \<Rightarrow> ProcessedPDF \<Rightarrow> PDFStore" where
  \<comment> \<open>\<open>this.storedPDFData.set(response.data.file_id, response.data)\<close> in uploadAndProcessPDF\<close>
  "storePDF st pdf = st(file_id pdf \<mapsto> pdf)"

definition getPDFData :: "PDFStore \<Rightarrow> string \<Rightarrow> ProcessedPDF option" where
  "getPDFData st fileId = st fileId"

definition clearStoredData :: "PDFStore \<Rightarrow> PDFStore" where
  "clearStoredData st = Map.empty"

definition pdf_not_found :: ClientError where
  "pdf_not_found = Error ''PDF data not found. Please re-upload the PDF.''"

definition mkRequest :: "ProcessedPDF \<Rightarrow> string \<Rightarrow> ChatMessage list \<Rightarrow> StatelessChatRequest" where
  \<comment> \<open>the object literal \<open>request\<close> built in sendMessage and in streamChat\<close>
  "mkRequest pdfData message history =
     \<lparr> req_message = message,
       req_chunks = chunks pdfData,
       req_embeddings = embeddings pdfData,
       req_chunk_metadata = chunk_metadata pdfData,
       req_history = Some history \<rparr>"

text \<open>
  \<open>sendMessage\<close>: the HTTP exchange \<open>this.axios.post('/stateless/chat/stateless', request, ...)\<close>
  is the parameter \<open>post\<close> (a rejected promise is \<open>Inl\<close>). The result pairs the outcome of the
  returned promise with the list of requests that were issued. The API key travels in a header
  only and is left out, here and in \<open>streamChat\<close>.
\<close>

definition sendMessage ::
  "(StatelessChatRequest \<Rightarrow> ClientError + 'r) \<Rightarrow> PDFStore \<Rightarrow> string \<Rightarrow> string \<Rightarrow>
     ChatMessage list \<Rightarrow> (ClientError + 'r) \<times> StatelessChatRequest list" where
  "sendMessage post st fileId message history =
     (case st fileId of
        None \<Rightarrow> (Inl pdf_not_found, [])
      | Some pdfData \<Rightarrow>
          (let request = mkRequest pdfData message history
           in (post request, [request])))"

subsection \<open>streamChat\<close>

text \<open>
  What the three callbacks of \<open>streamChat\<close> received, in the order of the calls.
\<close>

datatype Callback = OnMessage StreamEvent | OnError ClientError | OnComplete

text \<open>
  The environment of one \<open>streamChat\<close> call, one event at a time: the promise of \<open>fetch\<close>
  settles (\<open>FetchRejected\<close>, or \<open>Response ok status has_body\<close>), a \<open>reader.read()\<close> settles
  (\<open>ReadChunk\<close> with the decoded text of the bytes, \<open>ReadDone\<close>, \<open>ReadRejected\<close>), or the
  caller invokes the returned abort function from an event handler of its own (\<open>CallerAbort\<close>).
  A finite list of such events is a prefix of the exchange: when it ends with the client in
  \<open>AwaitingResponse\<close> or \<open>Reading\<close>, the client is suspended at its \<open>await\<close>.

  How the pending promise settles after an abort is the platform's business and is not fixed
  here: \<open>fetch\<close> and a \<open>read()\<close> on a body that is still open reject with an AbortError, a
  \<open>read()\<close> on a body that has already closed resolves with \<open>done\<close>. The list of events is
  arbitrary, and the properties below say which settlement they need.
\<close>

datatype NetEvent =
    FetchRejected ClientError
  | Response bool nat bool
  | ReadChunk string
  | ReadDone
  | ReadRejected ClientError
  | CallerAbort

datatype Phase = AwaitingResponse | Reading | Closed

record StreamState =
  phase :: Phase
  aborted :: bool
  delivered :: "Callback list"
  issued :: "StatelessChatRequest list"

text \<open>
  \<open>JSON.parse\<close> is a parameter (\<open>None\<close> when it throws; the surrounding \<open>try\<close> swallows the
  exception). The caller's \<open>onMessage\<close> may itself call the abort function: the second
  parameter says, from everything delivered so far, whether it does so in this call.
\<close>

type_synonym JsonParse = "string \<Rightarrow> StreamEvent option"
type_synonym CallerPolicy = "Callback list \<Rightarrow> bool"

definition streamChat :: "PDFStore \<Rightarrow> string \<Rightarrow> string \<Rightarrow> ChatMessage list \<Rightarrow> StreamState" where
  \<comment> \<open>the synchronous part of streamChat, up to and including the call of \<open>fetch\<close>\<close>
  "streamChat st fileId message history =
     (case st fileId of
        None \<Rightarrow>
          \<lparr> phase = Closed, aborted = False, delivered = [OnError pdf_not_found], issued = [] \<rparr>
      | Some pdfData \<Rightarrow>
          \<lparr> phase = AwaitingResponse, aborted = False, delivered = [],
            issued = [mkRequest pdfData message history] \<rparr>)"

definition call :: "Callback \<Rightarrow> StreamState \<Rightarrow> StreamState" where
  "call cb s = s\<lparr> delivered := delivered s @ [cb] \<rparr>"

definition onMessage :: "CallerPolicy \<Rightarrow> StreamEvent \<Rightarrow> StreamState \<Rightarrow> StreamState" where
  \<comment> \<open>\<open>onMessage(event)\<close>, during which the caller may call \<open>abortController.abort()\<close>\<close>
  "onMessage aborts_now event s =
     (let s' = call (OnMessage event) s
      in if aborts_now (delivered s') then s'\<lparr> aborted := True \<rparr> else s')"

text \<open>
  The \<open>for (const line of lines)\<close> loop of \<open>readStream\<close>. The flag of the result is \<open>True\<close>
  when the loop left \<open>readStream\<close> through \<open>return\<close> (after \<open>[DONE]\<close>).
\<close>

fun process_lines ::
  "JsonParse \<Rightarrow> CallerPolicy \<Rightarrow> string list \<Rightarrow> StreamState \<Rightarrow> bool \<times> StreamState" where
  "process_lines parse aborts_now [] s = (False, s)"
| "process_lines parse aborts_now (line # lines) s =
     (let trimmedLine = trim line in
      if startsWith trimmedLine ''data: '' then
        (let data = drop 6 trimmedLine in
         if data = ''[DONE]'' then (True, call OnComplete s)
         else if data \<noteq> [] then
           (case parse data of
              None \<Rightarrow> process_lines parse aborts_now lines s
            | Some event \<Rightarrow> process_lines parse aborts_now lines (onMessage aborts_now event s))
         else process_lines parse aborts_now lines s)
      else process_lines parse aborts_now lines s)"

text \<open>
  Both \<open>catch\<close> handlers (of the promise chain of \<open>fetch\<close> and of \<open>readStream\<close>):
  \<open>if (!abortController.signal.aborted) onError(error)\<close>. They are the only places where the
  client reads the abort signal.
\<close>

definition catch_handler :: "ClientError \<Rightarrow> StreamState \<Rightarrow> StreamState" where
  "catch_handler err s = (if aborted s then s else call (OnError err) s)\<lparr> phase := Closed \<rparr>"

text \<open>
  One environment event. \<open>abort()\<close> sets the signal and nothing else (once the exchange is
  \<open>Closed\<close> nothing reads the signal any more, and the call is not recorded). The two \<open>throw\<close>
  statements of the \<open>then\<close> handler (response not ok, no body) land in the \<open>catch\<close> handler
  of the chain; a rejected \<open>fetch\<close> or \<open>read()\<close> lands in its \<open>catch\<close> handler; a read that
  resolves is processed without a look at the signal. An event that the current phase cannot
  receive leaves the state as it is. Callbacks that throw are not modelled.
\<close>

definition client_step ::
  "JsonParse \<Rightarrow> CallerPolicy \<Rightarrow> StreamState \<Rightarrow> NetEvent \<Rightarrow> StreamState" where
  "client_step parse aborts_now s e =
     (case phase s of
        Closed \<Rightarrow> s
      | AwaitingResponse \<Rightarrow>
          (case e of
             CallerAbort \<Rightarrow> s\<lparr> aborted := True \<rparr>
           | FetchRejected err \<Rightarrow> catch_handler err s
           | Response ok status has_body \<Rightarrow>
               (if \<not> ok then catch_handler (HttpError status) s
                else if \<not> has_body then catch_handler (Error ''No response body'') s
                else s\<lparr> phase := Reading \<rparr>)
           | _ \<Rightarrow> s)
      | Reading \<Rightarrow>
          (case e of
             CallerAbort \<Rightarrow> s\<lparr> aborted := True \<rparr>
           | ReadDone \<Rightarrow> (call OnComplete s)\<lparr> phase := Closed \<rparr>
           | ReadRejected err \<Rightarrow> catch_handler err s
           | ReadChunk chunk \<Rightarrow>
               (case process_lines parse aborts_now (split_lines chunk) s of
                  (True, s') \<Rightarrow> s'\<lparr> phase := Closed \<rparr>
                | (False, s') \<Rightarrow> s')
           | _ \<Rightarrow> s))"

definition run_stream ::
  "JsonParse \<Rightarrow> CallerPolicy \<Rightarrow> StreamState \<Rightarrow> NetEvent list \<Rightarrow> StreamState" where
  "run_stream parse aborts_now s es = foldl (client_step parse aborts_now) s es"

subsection \<open>The wrapper class (apiFactory's stateless client)\<close>

record FileStatusReply =
  fs_file_id :: string
  fs_status :: string
  fs_filename :: string
  fs_page_count :: nat
  fs_chunk_count :: nat
  fs_processed_at :: string

text \<open>
  \<open>getFileStatus\<close> is \<open>async\<close>: its promise could in principle reject, so the result is a sum.
  \<open>now\<close> is \<open>new Date().toISOString()\<close> at the time of the call.
\<close>

definition getFileStatus :: "string \<Rightarrow> PDFStore \<Rightarrow> string \<Rightarrow> ClientError + FileStatusReply" where
  "getFileStatus now st fileId =
     (case getPDFData st fileId of
        None \<Rightarrow>
          Inr \<lparr> fs_file_id = fileId, fs_status = ''completed'', fs_filename = ''Document'',
                fs_page_count = 0, fs_chunk_count = 0, fs_processed_at = now \<rparr>
      | Some pdfData \<Rightarrow>
          Inr \<lparr> fs_file_id = fileId, fs_status = ''completed'', fs_filename = filename pdfData,
                fs_page_count = page_count pdfData, fs_chunk_count = chunk_count pdfData,
                fs_processed_at = now \<rparr>)"

record WrapperRequest =
  wr_file_id :: string
  wr_message :: string
  wr_history :: "ChatMessage list"

definition wrapper_sendMessage ::
  "(StatelessChatRequest \<Rightarrow> ClientError + 'r) \<Rightarrow> PDFStore \<Rightarrow> WrapperRequest \<Rightarrow>
     (ClientError + 'r) \<times> StatelessChatRequest list" where
  \<comment> \<open>\<open>super.sendMessage(request.file_id, request.message, request.history, apiKey)\<close>\<close>
  "wrapper_sendMessage post st request =
     sendMessage post st (wr_file_id request) (wr_message request) (wr_history request)"

definition wrapper_streamChat :: "PDFStore \<Rightarrow> WrapperRequest \<Rightarrow> StreamState" where
  "wrapper_streamChat st request =
     streamChat st (wr_file_id request) (wr_message request) (wr_history request)"

section \<open>The upload component (PDFUpload) and the page that renders it (HomePage)\<close>

record File =
  file_name :: string
  file_type :: string
  file_size :: nat

text \<open>
  The component state that the handlers write. The progress bar (\<open>uploadProgress\<close>) is
  driven by timers and is left out.
\<close>

record UploadState =
  isDragging :: bool
  isUploading :: bool
  upload_error :: "string option"
  uploadedFile :: "string option"
  isSuccess :: bool

text \<open>How the promise of \<open>apiClient.uploadPDF\<close> may reject: with an \<open>Error\<close> or with another value.\<close>

datatype Rejection = RejectedError string | RejectedOther

text \<open>\<open>!apiKey\<close>: the key is \<open>null\<close> or the empty string.\<close>

definition no_key :: "string option \<Rightarrow> bool" where
  "no_key apiKey = (case apiKey of None \<Rightarrow> True | Some k \<Rightarrow> k = [])"

definition maxSize :: nat where
  "maxSize = 10 * 1024 * 1024"

record UploadResult =
  final_state :: UploadState
  upload_calls :: "(File \<times> string) list"
  uploaded_ids :: "string list"

text \<open>
  \<open>handleFileUpload\<close>, run to the end of the upload: \<open>uploadPDF\<close> is the client call
  (\<open>Inr\<close> the \<open>file_id\<close> of the response), the result lists the calls of \<open>uploadPDF\<close> and of
  \<open>onFileUploaded\<close>.
\<close>

definition handleFileUpload ::
  "(File \<Rightarrow> string \<Rightarrow> Rejection + string) \<Rightarrow> string option \<Rightarrow> File \<Rightarrow> UploadState \<Rightarrow> UploadResult" where
  "handleFileUpload uploadPDF apiKey file st =
     (if no_key apiKey then
        \<lparr> final_state = st\<lparr> upload_error := Some ''API key is required'' \<rparr>,
          upload_calls = [], uploaded_ids = [] \<rparr>
      else if file_type file \<noteq> ''application/pdf'' then
        \<lparr> final_state = st\<lparr> upload_error := Some ''Please select a PDF file'' \<rparr>,
          upload_calls = [], uploaded_ids = [] \<rparr>
      else if file_size file > maxSize then
        \<lparr> final_state = st\<lparr> upload_error := Some ''File size must be less than 10MB'' \<rparr>,
          upload_calls = [], uploaded_ids = [] \<rparr>
      else
        (let key = the apiKey;
             st1 = st\<lparr> upload_error := None, isUploading := True,
                       uploadedFile := Some (file_name file) \<rparr>
         in case uploadPDF file key of
              Inr fid \<Rightarrow>
                \<lparr> final_state = st1\<lparr> isUploading := False, isSuccess := True,
                                     uploadedFile := Some (file_name file) \<rparr>,
                  upload_calls = [(file, key)], uploaded_ids = [fid] \<rparr>
            | Inl rej \<Rightarrow>
                \<lparr> final_state =
                    st1\<lparr> upload_error :=
                            Some (case rej of RejectedError m \<Rightarrow> m
                                  | RejectedOther \<Rightarrow> ''Failed to upload file''),
                         isUploading := False \<rparr>,
                  upload_calls = [(file, key)], uploaded_ids = [] \<rparr>))"

text \<open>
  The two ways in which a file reaches \<open>handleFileUpload\<close>. \<open>handleFileSelect\<close> takes
  \<open>e.target.files?.[0]\<close> and does nothing when there is none. \<open>handleDrop\<close> takes the first
  dropped file whose type is \<open>application/pdf\<close> (\<open>files.find\<close>); when there is none it reports
  the type error itself.
\<close>

definition handleFileSelect ::
  "(File \<Rightarrow> string \<Rightarrow> Rejection + string) \<Rightarrow> string option \<Rightarrow> File list \<Rightarrow> UploadState \<Rightarrow> UploadResult" where
  "handleFileSelect uploadPDF apiKey files st =
     (case files of
        [] \<Rightarrow> \<lparr> final_state = st, upload_calls = [], uploaded_ids = [] \<rparr>
      | file # others \<Rightarrow> handleFileUpload uploadPDF apiKey file st)"

definition handleDrop ::
  "(File \<Rightarrow> string \<Rightarrow> Rejection + string) \<Rightarrow> string option \<Rightarrow> File list \<Rightarrow> UploadState \<Rightarrow> UploadResult" where
  "handleDrop uploadPDF apiKey files st =
     (let st1 = st\<lparr> isDragging := False \<rparr>
      in case find (\<lambda>file. file_type file = ''application/pdf'') files of
           Some pdfFile \<Rightarrow> handleFileUpload uploadPDF apiKey pdfFile st1
         | None \<Rightarrow>
             \<lparr> final_state = st1\<lparr> upload_error := Some ''Please select a PDF file'' \<rparr>,
               upload_calls = [], uploaded_ids = [] \<rparr>)"

text \<open>
  \<open>HomePage\<close> renders \<open>PDFUpload\<close> under \<open>apiKey ? ... : ...\<close>, and both read the key from the
  same context (\<open>useApiKey\<close>): without a key there is the button \<open>Get Started\<close> and no
  component to offer a file to (\<open>None\<close>). With a key, the user selects files in the file input
  or drops files on the drop zone.
\<close>

datatype Offer = Selected "File list" | Dropped "File list"

definition HomePage_upload ::
  "(File \<Rightarrow> string \<Rightarrow> Rejection + string) \<Rightarrow> string option \<Rightarrow> Offer \<Rightarrow> UploadState \<Rightarrow>
     UploadResult option" where
  "HomePage_upload uploadPDF apiKey offer st =
     (if no_key apiKey then None
      else Some (case offer of
                   Selected files \<Rightarrow> handleFileSelect uploadPDF apiKey files st
                 | Dropped files \<Rightarrow> handleDrop uploadPDF apiKey files st))"

section \<open>The chat component (ChatInterface)\<close>

record ChatState =
  messages :: "ChatMessage list"
  input :: string
  isStreaming :: bool
  currentSources :: "ChatSource list"
  chat_error :: "string option"
  abortStreamRef :: bool

text \<open>
  \<open>handleSubmit\<close>: the new state and the request handed to \<open>apiClient.streamChat\<close>, if any.
  \<open>messages\<close> in the request is the value captured by the render in which the handler was
  created, that is the state before the two \<open>setMessages\<close> calls of this handler.
\<close>

definition handleSubmit :: "string option \<Rightarrow> string \<Rightarrow> ChatState \<Rightarrow> ChatState \<times> ChatRequest option" where
  "handleSubmit apiKey fileId st =
     (if trim (input st) = [] \<or> no_key apiKey \<or> isStreaming st then (st, None)
      else
        (let userMessage = \<lparr> role = user, content = trim (input st), sources = None \<rparr>;
             assistantMessage = \<lparr> role = assistant, content = [], sources = Some [] \<rparr>
         in (st\<lparr> messages := messages st @ [userMessage, assistantMessage],
                  input := [], chat_error := None, isStreaming := True,
                  currentSources := [], abortStreamRef := True \<rparr>,
             Some \<lparr> cr_file_id = fileId, cr_message = content userMessage,
                    cr_history = Some (messages st) \<rparr>)))"

text \<open>
  The state updaters of the \<open>onMessage\<close> callback read \<open>newMessages[newMessages.length - 1]\<close>:
  on an empty list that is \<open>undefined\<close> and \<open>lastMessage.role\<close> throws a TypeError (\<open>None\<close>).
\<close>

definition update_last :: "(ChatMessage \<Rightarrow> ChatMessage) \<Rightarrow> ChatMessage list \<Rightarrow> ChatMessage list option" where
  "update_last f ms =
     (if ms = [] then None
      else if role (last ms) = assistant then Some (butlast ms @ [f (last ms)])
      else Some ms)"

definition or_else :: "string option \<Rightarrow> string \<Rightarrow> string" where
  \<comment> \<open>\<open>x || d\<close> on an optional string: \<open>undefined\<close> and the empty string are falsy\<close>
  "or_else x d = (case x of None \<Rightarrow> d | Some v \<Rightarrow> if v = [] then d else v)"

definition on_event :: "StreamEvent \<Rightarrow> ChatState \<Rightarrow> ChatState option" where
  "on_event event st =
     (if ev_type event = ''content'' then
        map_option (\<lambda>ms. st\<lparr> messages := ms \<rparr>)
          (update_last (\<lambda>m. m\<lparr> content := content m @ or_else (ev_content event) [] \<rparr>) (messages st))
      else if ev_type event = ''sources'' then
        map_option
          (\<lambda>ms. st\<lparr> currentSources := (case ev_sources event of None \<Rightarrow> [] | Some xs \<Rightarrow> xs),
                     messages := ms \<rparr>)
          (update_last (\<lambda>m. m\<lparr> sources := ev_sources event \<rparr>) (messages st))
      else if ev_type event = ''error'' then
        Some (st\<lparr> chat_error := Some (or_else (ev_content event) ''An error occurred'') \<rparr>)
      else Some st)"

definition on_error :: "string \<Rightarrow> ChatState \<Rightarrow> ChatState" where
  "on_error msg st = st\<lparr> chat_error := Some msg, isStreaming := False \<rparr>"

definition on_complete :: "ChatState \<Rightarrow> ChatState" where
  "on_complete st = st\<lparr> isStreaming := False \<rparr>"

definition handleStopStreaming :: "ChatState \<Rightarrow> ChatState" where
  "handleStopStreaming st =
     (if abortStreamRef st then st\<lparr> abortStreamRef := False, isStreaming := False \<rparr> else st)"

section \<open>The retrieval pipeline behind the clients\<close>

text \<open>
  The server side (chunker, embedder, retriever, session store, answer synthesizer) is not among
  the frontend sources; every definition of this section is written from the specification and
  says so.
\<close>

text \<open>
  Modelled from the spec: the error taxonomy of section 7 (the server's error types are absent),
  with the construction failure of section 3.
\<close>

datatype CoreError =
    ConfigurationError
  | EmptyDocumentError
  | EmbeddingBackendError
  | SessionNotFoundError
  | SessionDataMissingError
  | GenerationBackendError
  | ConstructionError

subsection \<open>Chunker\<close>

text \<open>
  Modelled from the spec: the Chunk of section 3 (the server's chunk type is absent), without
  its \<open>id\<close>: the specification does not say how an identifier is formed, and the payload
  of section 6 does not carry one. No statement below depends on the identity of a chunk, and
  none compares the chunks of two sessions.
\<close>

record Chunk =
  chunk_text :: string
  page_number :: nat
  ordinal_index :: nat
  total_chunks :: nat

text \<open>
  Modelled from the spec: the windowing of section 4.1 (the chunker is absent). Windows of
  \<open>chunk_size\<close> characters start at \<open>start\<close>, \<open>start + (chunk_size - overlap)\<close>, ...; the window
  that reaches the end of the page is the last one, as the scenario of section 8 requires
  (\<open>chunk_size = 10\<close>, \<open>overlap = 3\<close>, 15 characters: two chunks, not a third one at offset 14).
\<close>

function slice_from :: "nat \<Rightarrow> nat \<Rightarrow> string \<Rightarrow> nat \<Rightarrow> string list" where
  "slice_from chunk_size overlap txt start =
     (if chunk_size \<le> overlap \<or> length txt \<le> start then []
      else take chunk_size (drop start txt) #
           (if length txt \<le> start + chunk_size then []
            else slice_from chunk_size overlap txt (start + (chunk_size - overlap))))"
  by pat_completeness auto
termination
  by (relation "measure (\<lambda>(chunk_size, overlap, txt, start). length txt - start)") auto

text \<open>Modelled from the spec: the windows of one page, from offset 0 (section 4.1).\<close>

definition split_page :: "nat \<Rightarrow> nat \<Rightarrow> string \<Rightarrow> string list" where
  "split_page chunk_size overlap txt = slice_from chunk_size overlap txt 0"

text \<open>
  Modelled from the spec: the metadata of one page's chunks (page number from 1, position of the
  chunk within its page, number of chunks of the page). Positions are counted from 0.
\<close>

definition page_chunks :: "nat \<Rightarrow> string list \<Rightarrow> Chunk list" where
  "page_chunks p ws =
     map (\<lambda>(i, w). \<lparr> chunk_text = w, page_number = p, ordinal_index = i, total_chunks = length ws \<rparr>)
       (enumerate 0 ws)"

text \<open>
  Modelled from the spec: the contract \<open>chunk(page_texts, chunk_size, overlap)\<close> of section 4.1,
  with its two errors.
\<close>

definition chunk :: "string list \<Rightarrow> nat \<Rightarrow> nat \<Rightarrow> CoreError + Chunk list" where
  "chunk page_texts chunk_size overlap =
     (if \<not> overlap < chunk_size then Inl ConfigurationError
      else
        (let cs = concat (map (\<lambda>(p, txt). page_chunks p (split_page chunk_size overlap txt))
                            (enumerate 1 page_texts))
         in if cs = [] then Inl EmptyDocumentError else Inr cs))"

subsection \<open>Embedder\<close>


subsection \<open>Document sessions\<close>

text \<open>Modelled from the spec: the DocumentSession of section 3.\<close>

record DocumentSession =
  document_id :: string
  session_chunks :: "Chunk list"
  session_embeddings :: "real list list"
  session_filename :: string
  session_page_count :: nat

text \<open>
  Modelled from the spec: construction of a session, which enforces
  \<open>len(Chunks) == len(EmbeddingVectors)\<close> and fails otherwise (section 3).
\<close>

definition mk_session ::
  "string \<Rightarrow> Chunk list \<Rightarrow> real list list \<Rightarrow> string \<Rightarrow> nat \<Rightarrow> CoreError + DocumentSession" where
  "mk_session did cs vs fname pages =
     (if length cs = length vs then
        Inr \<lparr> document_id = did, session_chunks = cs, session_embeddings = vs,
              session_filename = fname, session_page_count = pages \<rparr>
      else Inl ConstructionError)"



subsection \<open>Retriever\<close>

text \<open>
  Modelled from the spec: the dot product of section 4.3. The numbers are real numbers; the
  server computes in floating point.
\<close>

definition dot :: "real list \<Rightarrow> real list \<Rightarrow> real" where
  "dot u v = sum_list (map (\<lambda>(a, b). a * b) (zip u v))"

text \<open>
  Modelled from the spec: cosine similarity of section 4.3, the dot product divided by the
  product of the norms, and 0 when a norm is 0.
\<close>

definition cosine_similarity :: "real list \<Rightarrow> real list \<Rightarrow> real" where
  "cosine_similarity u v =
     (let nu = sqrt (dot u u); nv = sqrt (dot v v)
      in if nu = 0 \<or> nv = 0 then 0 else dot u v / (nu * nv))"

text \<open>Modelled from the spec: the RetrievedChunk of section 3, its score clamped to [0,1].\<close>

record RetrievedChunk =
  rc_chunk :: Chunk
  rc_score :: real

text \<open>Modelled from the spec: the clamping of a relevance score to [0,1] (glossary).\<close>

definition clamp01 :: "real \<Rightarrow> real" where
  "clamp01 x = max 0 (min 1 x)"

text \<open>
  Modelled from the spec: a stable sort by descending similarity (section 4.3): an element is
  inserted before the first element of strictly smaller similarity, so that it stays in front of
  the later candidates of equal similarity.
\<close>

fun insert_desc :: "'a \<times> real \<Rightarrow> ('a \<times> real) list \<Rightarrow> ('a \<times> real) list" where
  "insert_desc x [] = [x]"
| "insert_desc x (y # ys) = (if snd y \<le> snd x then x # y # ys else y # insert_desc x ys)"

text \<open>Modelled from the spec: the stable sort of section 4.3, by insertion from the right.\<close>

definition sort_desc :: "('a \<times> real) list \<Rightarrow> ('a \<times> real) list" where
  "sort_desc xs = foldr insert_desc xs []"

text \<open>
  Modelled from the spec: the linear scan of section 4.3, every candidate with its similarity to
  the query. The similarity is a parameter here and in the next two definitions.
\<close>

definition scored :: "(real list \<Rightarrow> real list \<Rightarrow> real) \<Rightarrow> real list \<Rightarrow> (Chunk \<times> real list) list \<Rightarrow> (Chunk \<times> real) list" where
  "scored sim query candidates = map (\<lambda>(c, v). (c, sim query v)) candidates"

text \<open>
  Modelled from the spec: the ranking of section 4.3: sort the scored candidates, keep the first
  \<open>k\<close> (all of them when \<open>k\<close> is larger).
\<close>

definition ranked :: "(real list \<Rightarrow> real list \<Rightarrow> real) \<Rightarrow> real list \<Rightarrow> (Chunk \<times> real list) list \<Rightarrow> nat \<Rightarrow> (Chunk \<times> real) list" where
  "ranked sim query candidates k = take k (sort_desc (scored sim query candidates))"

text \<open>Modelled from the spec: the RetrievedChunk list of a ranking (sections 3 and 4.3).\<close>

definition retrieve_by ::
  "(real list \<Rightarrow> real list \<Rightarrow> real) \<Rightarrow> real list \<Rightarrow> (Chunk \<times> real list) list \<Rightarrow> nat \<Rightarrow> RetrievedChunk list" where
  "retrieve_by sim query candidates k =
     map (\<lambda>(c, x). \<lparr> rc_chunk = c, rc_score = clamp01 x \<rparr>) (ranked sim query candidates k)"

text \<open>
  Modelled from the spec: \<open>retrieve(query_vector, candidates, k)\<close> of section 4.3, with the
  cosine similarity.
\<close>

definition retrieve :: "real list \<Rightarrow> (Chunk \<times> real list) list \<Rightarrow> nat \<Rightarrow> RetrievedChunk list" where
  "retrieve query candidates k = retrieve_by cosine_similarity query candidates k"


subsection \<open>Session store: the server-resident store and the stateless load\<close>






text \<open>
  Modelled from the spec: \<open>load\<close> of the stateless variant (section 4.4), a deserialization
  of the payload that a question carries, with no backing store. The payload is three parallel
  sequences (section 6); when they do not have one length they are not a serialized session,
  and the load fails as a construction error before anything is paired (section 3). The request
  has no identifier, filename or page count, so the rebuilt session has empty ones.
\<close>

definition load_stateless :: "StatelessChatRequest \<Rightarrow> CoreError + DocumentSession" where
  "load_stateless request =
     (if length (req_chunk_metadata request) \<noteq> length (req_chunks request) then Inl ConstructionError
      else
        mk_session []
          (map (\<lambda>(t, m). \<lparr> chunk_text = t, page_number = meta_page m, ordinal_index = chunk_index m,
                            total_chunks = meta_total_chunks m \<rparr>)
             (zip (req_chunks request) (req_chunk_metadata request)))
          (req_embeddings request) [] 0)"

subsection \<open>Answer synthesizer\<close>

text \<open>
  Modelled from the spec: the phases of the state machine of section 4.5 (the synthesizer is
  absent from the sources).
\<close>

datatype SynthPhase = Idle | Retrieving | Generating | Complete | Cancelled | Failed

text \<open>
  Modelled from the spec: the events of the streamed output (section 6): content, the terminal
  sources event, the completion marker, and the error event.
\<close>

datatype Event = Content string | Sources "RetrievedChunk list" | Done | ErrorEvent CoreError

text \<open>Modelled from the spec: what the synthesizer observes next (sections 4.5 and 5).\<close>

datatype Signal =
    Ask
  | Retrieved "RetrievedChunk list"
  | Token string
  | BackendDone
  | Failure CoreError
  | Cancel

text \<open>
  Modelled from the spec: the state of one question: its phase, the retrieved chunks that ground
  the answer, and the events emitted so far (section 4.5).
\<close>

record Synth =
  synth_phase :: SynthPhase
  grounding :: "RetrievedChunk list"
  emitted :: "Event list"

text \<open>Modelled from the spec: the initial state \<open>Idle\<close> (section 4.5).\<close>

definition idle :: Synth where
  "idle = \<lparr> synth_phase = Idle, grounding = [], emitted = [] \<rparr>"

text \<open>Modelled from the spec: emitting events, in order (section 5).\<close>

definition emit :: "Event list \<Rightarrow> Synth \<Rightarrow> Synth" where
  "emit es s = s\<lparr> emitted := emitted s @ es \<rparr>"

text \<open>
  Modelled from the spec: the transitions of section 4.5. Complete, Cancelled and Failed have
  no transition; a signal that the current phase does not expect is ignored.
\<close>

fun synth_step :: "Synth \<Rightarrow> Signal \<Rightarrow> Synth" where
  "synth_step s sig =
     (case (synth_phase s, sig) of
        (Idle, Ask) \<Rightarrow> s\<lparr> synth_phase := Retrieving \<rparr>
      | (Retrieving, Retrieved rs) \<Rightarrow> s\<lparr> synth_phase := Generating, grounding := rs \<rparr>
      | (Generating, Token t) \<Rightarrow> emit [Content t] s
      | (Generating, BackendDone) \<Rightarrow> (emit [Sources (grounding s), Done] s)\<lparr> synth_phase := Complete \<rparr>
      | (Retrieving, Cancel) \<Rightarrow> s\<lparr> synth_phase := Cancelled \<rparr>
      | (Generating, Cancel) \<Rightarrow> s\<lparr> synth_phase := Cancelled \<rparr>
      | (Idle, Failure e) \<Rightarrow> (emit [ErrorEvent e] s)\<lparr> synth_phase := Failed \<rparr>
      | (Retrieving, Failure e) \<Rightarrow> (emit [ErrorEvent e] s)\<lparr> synth_phase := Failed \<rparr>
      | (Generating, Failure e) \<Rightarrow> (emit [ErrorEvent e] s)\<lparr> synth_phase := Failed \<rparr>
      | _ \<Rightarrow> s)"

text \<open>Modelled from the spec: a run of the state machine over the signals of one question.\<close>

definition synthesize :: "Synth \<Rightarrow> Signal list \<Rightarrow> Synth" where
  "synthesize s sigs = foldl synth_step s sigs"

subsection \<open>A concrete payload\<close>

definition example_pdf :: ProcessedPDF where
  "example_pdf =
     \<lparr> file_id = ''f1'', filename = ''paper.pdf'', page_count = 2, chunk_count = 2,
       chunks = [''alpha'', ''beta''],
       embeddings = [[1, 0], [0, 1]],
       chunk_metadata =
         [\<lparr> meta_page = 1, chunk_index = 0, meta_total_chunks = 1 \<rparr>,
          \<lparr> meta_page = 2, chunk_index = 0, meta_total_chunks = 1 \<rparr>] \<rparr>"


subsection \<open>Reading a run of the synthesizer\<close>

text \<open>The tokens among the signals, the texts among the events, and the shape of the output.\<close>

definition tokens_of :: "Signal list \<Rightarrow> string list" where
  "tokens_of sigs = concat (map (\<lambda>s. case s of Token t \<Rightarrow> [t] | _ \<Rightarrow> []) sigs)"

definition contents_of :: "Event list \<Rightarrow> string list" where
  "contents_of es = concat (map (\<lambda>e. case e of Content t \<Rightarrow> [t] | _ \<Rightarrow> []) es)"

definition synth_inv :: "Synth \<Rightarrow> bool" where
  "synth_inv s =
     (case synth_phase s of
        Idle \<Rightarrow> emitted s = []
      | Retrieving \<Rightarrow> emitted s = []
      | Generating \<Rightarrow> emitted s = map Content (contents_of (emitted s))
      | Complete \<Rightarrow> emitted s = map Content (contents_of (emitted s)) @ [Sources (grounding s), Done]
      | Cancelled \<Rightarrow> emitted s = map Content (contents_of (emitted s))
      | Failed \<Rightarrow> (\<exists>e. emitted s = map Content (contents_of (emitted s)) @ [ErrorEvent e]))"

subsection \<open>Concrete values for evaluation\<close>

definition content_event :: "string \<Rightarrow> StreamEvent" where
  "content_event t = \<lparr> ev_type = ''content'', ev_content = Some t, ev_sources = None \<rparr>"

definition sources_event :: "ChatSource list \<Rightarrow> StreamEvent" where
  "sources_event srcs = \<lparr> ev_type = ''sources'', ev_content = None, ev_sources = Some srcs \<rparr>"

text \<open>
  A stand-in for \<open>JSON.parse\<close> on the four payloads of the example streams, written \<open>{A}\<close>,
  \<open>{B}\<close>, \<open>{C}\<close> (content events) and \<open>{S}\<close> (a sources event); it throws on anything else.
\<close>

definition example_parse :: JsonParse where
  "example_parse data =
     (if data = ''{A}'' then Some (content_event ''A'')
      else if data = ''{B}'' then Some (content_event ''B'')
      else if data = ''{C}'' then Some (content_event ''C'')
      else if data = ''{S}'' then Some (sources_event [])
      else None)"

text \<open>The text of a server-sent event stream: \<open>data: payload\<close> and an empty line per event.\<close>

definition sse :: "string list \<Rightarrow> string" where
  "sse payloads = concat (map (\<lambda>p. ''data: '' @ p @ [CHR 0x0A, CHR 0x0A]) payloads)"

text \<open>Two callers: one aborts inside the callback of the second event, one never does.\<close>

definition after_two :: CallerPolicy where
  "after_two ds = (length ds = 2)"

definition never :: CallerPolicy where
  "never ds = False"

definition example_file :: File where
  "example_file = \<lparr> file_name = ''paper.pdf'', file_type = ''application/pdf'', file_size = 1000 \<rparr>"

definition example_upload :: "File \<Rightarrow> string \<Rightarrow> Rejection + string" where
  "example_upload file key = Inr ''f1''"

definition fresh_upload :: UploadState where
  "fresh_upload = \<lparr> isDragging = False, isUploading = False, upload_error = None, uploadedFile = None,
                     isSuccess = False \<rparr>"

definition fresh_chat :: ChatState where
  "fresh_chat = \<lparr> messages = [], input = [], isStreaming = False, currentSources = [],
                   chat_error = None, abortStreamRef = False \<rparr>"



definition example_candidates :: "(Chunk \<times> real list) list" where
  \<comment> \<open>three candidates; the first and the third are orthogonal to the query \<open>[1, 0]\<close>\<close>
  "example_candidates =
     [(\<lparr> chunk_text = ''a'', page_number = 1, ordinal_index = 0, total_chunks = 3 \<rparr>, [0, 1]),
      (\<lparr> chunk_text = ''b'', page_number = 1, ordinal_index = 1, total_chunks = 3 \<rparr>, [1, 0]),
      (\<lparr> chunk_text = ''c'', page_number = 1, ordinal_index = 2, total_chunks = 3 \<rparr>, [0, 2])]"

section \<open>The string operations on examples\<close>

text \<open>
  \<open>trim\<close> removes a no-break space, a line separator, a byte order mark and an ideographic
  space like the ASCII white space, and keeps other characters (here \<open>U+00E9\<close> and the
  zero-width space \<open>U+200B\<close>, which is not white space).
\<close>

lemma trim_examples:
  "trim [CHR 0xC2, CHR 0xA0, CHR 0x20, CHR ''Q'', CHR 0xC3, CHR 0xA9, CHR 0x09, CHR 0xE2, CHR 0x80, CHR 0xA8] =
     [CHR ''Q'', CHR 0xC3, CHR 0xA9]"
  "trim [CHR 0xEF, CHR 0xBB, CHR 0xBF, CHR 0xE3, CHR 0x80, CHR 0x80] = []"
  "trim '' data: x  '' = ''data: x''"
  "trim [CHR 0xE2, CHR 0x80, CHR 0x8B] = [CHR 0xE2, CHR 0x80, CHR 0x8B]"
  by code_simp+

section \<open>Properties of the stateless client\<close>

text \<open>
  C10. In the stateless client wrapper, getFileStatus is total and never reports not-found:
  for a file identifier with no stored payload it resolves to a fabricated status with status
  'completed', filename 'Document', page_count 0 and chunk_count 0; for a stored identifier it
  resolves to status 'completed' with that payload's filename, page_count and chunk_count.
\<close>

theorem getFileStatus_total:
  "(\<exists>r. getFileStatus now st fileId = Inr r \<and> fs_file_id r = fileId \<and> fs_status r = ''completed'') \<and>
   (getPDFData st fileId = None \<longrightarrow>
      getFileStatus now st fileId =
        Inr \<lparr> fs_file_id = fileId, fs_status = ''completed'', fs_filename = ''Document'',
              fs_page_count = 0, fs_chunk_count = 0, fs_processed_at = now \<rparr>) \<and>
   (\<forall>pdfData. getPDFData st fileId = Some pdfData \<longrightarrow>
      getFileStatus now st fileId =
        Inr \<lparr> fs_file_id = fileId, fs_status = ''completed'', fs_filename = filename pdfData,
              fs_page_count = page_count pdfData, fs_chunk_count = chunk_count pdfData,
              fs_processed_at = now \<rparr>)"
  by (cases "getPDFData st fileId") (simp_all add: getFileStatus_def)

theorem getFileStatus_total_witness:
  "getFileStatus ''2025-01-01T00:00:00.000Z'' Map.empty ''nope'' =
     Inr \<lparr> fs_file_id = ''nope'', fs_status = ''completed'', fs_filename = ''Document'',
           fs_page_count = 0, fs_chunk_count = 0, fs_processed_at = ''2025-01-01T00:00:00.000Z'' \<rparr> \<and>
   getFileStatus ''2025-01-01T00:00:00.000Z'' (storePDF Map.empty example_pdf) ''f1'' =
     Inr \<lparr> fs_file_id = ''f1'', fs_status = ''completed'', fs_filename = ''paper.pdf'',
           fs_page_count = 2, fs_chunk_count = 2, fs_processed_at = ''2025-01-01T00:00:00.000Z'' \<rparr>"
  using getFileStatus_total [of "''2025-01-01T00:00:00.000Z''" Map.empty "''nope''"]
        getFileStatus_total [of "''2025-01-01T00:00:00.000Z''" "storePDF Map.empty example_pdf" "''f1''"]
  by (simp add: getPDFData_def storePDF_def example_pdf_def)

lemma load_stateless_result:
  "load_stateless request = Inl e \<Longrightarrow> e = ConstructionError"
  by (auto simp: load_stateless_def mk_session_def split: if_splits)

lemma process_lines_issued:
  "process_lines parse aborts_now ls s = (b, s') \<Longrightarrow> issued s' = issued s"
  by (induction ls arbitrary: s)
     (auto simp: Let_def call_def onMessage_def split: option.splits if_splits)

lemma closed_absorbs: "phase s = Closed \<Longrightarrow> run_stream parse aborts_now s es = s"
  by (induction es) (simp_all add: run_stream_def client_step_def)

lemma run_stream_append:
  "run_stream parse aborts_now s (es @ es') =
     run_stream parse aborts_now (run_stream parse aborts_now s es) es'"
  by (simp add: run_stream_def)

lemma run_stream_Cons:
  "run_stream parse aborts_now s (e # es) =
     run_stream parse aborts_now (client_step parse aborts_now s e) es"
  by (simp add: run_stream_def)

lemma process_lines_same:
  "delivered s1 = delivered s2 \<Longrightarrow>
   fst (process_lines parse p1 ls s1) = fst (process_lines parse p2 ls s2) \<and>
   delivered (snd (process_lines parse p1 ls s1)) = delivered (snd (process_lines parse p2 ls s2))"
proof (induction ls arbitrary: s1 s2)
  case Nil
  then show ?case by simp
next
  case (Cons line ls)
  have m: "delivered (onMessage p1 ev s1) = delivered (onMessage p2 ev s2)" for ev
    using Cons.prems by (simp add: onMessage_def call_def Let_def)
  show ?case
    using Cons.IH [OF Cons.prems] Cons.IH [OF m] Cons.prems
    by (simp add: Let_def call_def split: option.splits)
qed

lemma process_lines_grows:
  "\<exists>new. delivered (snd (process_lines parse pol ls s)) = delivered s @ new \<and>
         (\<forall>err. OnError err \<notin> set new)"
proof (induction ls arbitrary: s)
  case Nil
  then show ?case by simp
next
  case (Cons line ls)
  have m: "\<exists>new. delivered (snd (process_lines parse pol ls (onMessage pol ev s))) = delivered s @ new \<and>
         (\<forall>err. OnError err \<notin> set new)" for ev
  proof -
    from Cons.IH [of "onMessage pol ev s"] obtain new where
      "delivered (snd (process_lines parse pol ls (onMessage pol ev s))) =
         delivered (onMessage pol ev s) @ new" and "\<forall>err. OnError err \<notin> set new"
      by blast
    then have "delivered (snd (process_lines parse pol ls (onMessage pol ev s))) =
         delivered s @ (OnMessage ev # new) \<and> (\<forall>err. OnError err \<notin> set (OnMessage ev # new))"
      by (simp add: onMessage_def call_def Let_def)
    then show ?thesis by blast
  qed
  show ?case
    using Cons.IH [of s] m
    by (simp add: Let_def call_def split: option.splits)
qed

lemma process_lines_aborted:
  "aborted s \<Longrightarrow> aborted (snd (process_lines parse pol ls s))"
  by (induction ls arbitrary: s)
     (simp_all add: Let_def call_def onMessage_def split: option.splits)

lemma process_lines_aborted':
  "process_lines parse pol ls s = (b, s') \<Longrightarrow> aborted s \<Longrightarrow> aborted s'"
  using process_lines_aborted [of s parse pol ls] by simp

lemma step_aborted: "aborted s \<Longrightarrow> aborted (client_step parse pol s e)"
  by (cases "phase s"; cases e)
     (auto simp: client_step_def catch_handler_def call_def split: prod.splits bool.splits
           dest: process_lines_aborted')

lemma step_grows:
  "aborted s \<Longrightarrow>
   \<exists>new. delivered (client_step parse pol s e) = delivered s @ new \<and> (\<forall>err. OnError err \<notin> set new)"
proof (cases "phase s = Reading \<and> (\<exists>c. e = ReadChunk c)")
  case True
  then obtain c where e: "e = ReadChunk c" and r: "phase s = Reading" by blast
  obtain b s' where p: "process_lines parse pol (split_lines c) s = (b, s')"
    by (cases "process_lines parse pol (split_lines c) s")
  from process_lines_grows [of parse pol "split_lines c" s] p
  obtain new where "delivered s' = delivered s @ new" "\<forall>err. OnError err \<notin> set new"
    by auto
  then show ?thesis
    using p by (cases b) (auto simp: client_step_def e r)
next
  case False
  assume a: "aborted s"
  have "delivered (client_step parse pol s e) = delivered s \<or>
        delivered (client_step parse pol s e) = delivered s @ [OnComplete]"
    using False a
    by (cases "phase s"; cases e) (auto simp: client_step_def catch_handler_def call_def)
  then show ?thesis
  proof
    assume "delivered (client_step parse pol s e) = delivered s"
    then have "delivered (client_step parse pol s e) = delivered s @ [] \<and> (\<forall>err. OnError err \<notin> set [])"
      by simp
    then show ?thesis by blast
  next
    assume "delivered (client_step parse pol s e) = delivered s @ [OnComplete]"
    then have "delivered (client_step parse pol s e) = delivered s @ [OnComplete] \<and>
        (\<forall>err. OnError err \<notin> set [OnComplete])"
      by simp
    then show ?thesis by blast
  qed
qed

lemma run_no_error:
  "aborted s \<Longrightarrow> OnError err \<in> set (delivered (run_stream parse pol s es)) \<Longrightarrow>
   OnError err \<in> set (delivered s)"
proof (induction es arbitrary: s)
  case Nil
  then show ?case by (simp add: run_stream_def)
next
  case (Cons e es)
  from Cons.prems(2) have "OnError err \<in> set (delivered (run_stream parse pol (client_step parse pol s e) es))"
    by (simp add: run_stream_Cons)
  from Cons.IH [OF step_aborted [OF Cons.prems(1)] this]
  have "OnError err \<in> set (delivered (client_step parse pol s e))" .
  with step_grows [OF Cons.prems(1), of parse pol e] show ?case by auto
qed

lemma rejected_closes:
  "aborted s \<Longrightarrow> phase s = Reading \<Longrightarrow>
   delivered (run_stream parse pol s (ReadRejected err # es)) = delivered s"
  "aborted s \<Longrightarrow> phase s = AwaitingResponse \<Longrightarrow>
   delivered (run_stream parse pol s (FetchRejected err # es)) = delivered s"
  by (simp_all add: run_stream_Cons client_step_def catch_handler_def closed_absorbs)

lemma abort_step:
  "delivered (client_step parse pol s CallerAbort) = delivered s"
  "phase (client_step parse pol s CallerAbort) = phase s"
  "phase s \<noteq> Closed \<Longrightarrow> aborted (client_step parse pol s CallerAbort)"
  by (cases "phase s"; simp add: client_step_def)+

lemma resolved_read_same:
  "delivered (client_step parse pol (s\<lparr> aborted := b \<rparr>) (ReadChunk c)) =
     delivered (client_step parse pol' (s\<lparr> aborted := b' \<rparr>) (ReadChunk c))"
  "delivered (client_step parse pol (s\<lparr> aborted := b \<rparr>) ReadDone) =
     delivered (client_step parse pol' (s\<lparr> aborted := b' \<rparr>) ReadDone)"
proof -
  have d: "delivered (s\<lparr> aborted := b \<rparr>) = delivered (s\<lparr> aborted := b' \<rparr>)" by simp
  obtain f1 t1 where p1: "process_lines parse pol (split_lines c) (s\<lparr> aborted := b \<rparr>) = (f1, t1)"
    by (cases "process_lines parse pol (split_lines c) (s\<lparr> aborted := b \<rparr>)")
  obtain f2 t2 where p2: "process_lines parse pol' (split_lines c) (s\<lparr> aborted := b' \<rparr>) = (f2, t2)"
    by (cases "process_lines parse pol' (split_lines c) (s\<lparr> aborted := b' \<rparr>)")
  from process_lines_same [OF d, of parse pol "split_lines c" pol'] p1 p2
  have "f1 = f2" "delivered t1 = delivered t2" by simp_all
  then show "delivered (client_step parse pol (s\<lparr> aborted := b \<rparr>) (ReadChunk c)) =
     delivered (client_step parse pol' (s\<lparr> aborted := b' \<rparr>) (ReadChunk c))"
    using p1 p2 by (cases "phase s"; cases f2) (simp_all add: client_step_def)
  show "delivered (client_step parse pol (s\<lparr> aborted := b \<rparr>) ReadDone) =
     delivered (client_step parse pol' (s\<lparr> aborted := b' \<rparr>) ReadDone)"
    by (cases "phase s") (simp_all add: client_step_def call_def)
qed

text \<open>
  C7. In stateless mode, for a file identifier with no stored session payload, sendMessage and
  streamChat (and their wrappers) fail locally with the error \<open>PDF data not found. Please
  re-upload the PDF.\<close>: sendMessage rejects and streamChat calls \<open>onError\<close> once, no request
  is issued, and nothing further happens on that stream. For a stored identifier the call
  issues exactly one request, which carries the complete retained payload (chunks, embeddings,
  chunk_metadata) with the message and the history. The request names no document: it is the
  same for any two payloads with these three fields. The server-side load of such a request
  never fails with SessionNotFoundError.
\<close>

theorem missing_payload_fails_locally:
  "(st fileId = None \<longrightarrow>
      sendMessage post st fileId message history = (Inl pdf_not_found, []) \<and>
      wrapper_sendMessage post st \<lparr> wr_file_id = fileId, wr_message = message, wr_history = history \<rparr> =
        (Inl pdf_not_found, []) \<and>
      streamChat st fileId message history =
        \<lparr> phase = Closed, aborted = False, delivered = [OnError pdf_not_found], issued = [] \<rparr> \<and>
      run_stream parse aborts_now (streamChat st fileId message history) es =
        streamChat st fileId message history \<and>
      wrapper_streamChat st \<lparr> wr_file_id = fileId, wr_message = message, wr_history = history \<rparr> =
        streamChat st fileId message history) \<and>
   (\<forall>pdfData. st fileId = Some pdfData \<longrightarrow>
      sendMessage post st fileId message history =
        (post (mkRequest pdfData message history), [mkRequest pdfData message history]) \<and>
      streamChat st fileId message history =
        \<lparr> phase = AwaitingResponse, aborted = False, delivered = [],
          issued = [mkRequest pdfData message history] \<rparr> \<and>
      issued (run_stream parse aborts_now (streamChat st fileId message history) es) =
        [mkRequest pdfData message history] \<and>
      req_chunks (mkRequest pdfData message history) = chunks pdfData \<and>
      req_embeddings (mkRequest pdfData message history) = embeddings pdfData \<and>
      req_chunk_metadata (mkRequest pdfData message history) = chunk_metadata pdfData \<and>
      req_message (mkRequest pdfData message history) = message \<and>
      req_history (mkRequest pdfData message history) = Some history) \<and>
   (chunks pdfData' = chunks pdfData \<and> embeddings pdfData' = embeddings pdfData \<and>
    chunk_metadata pdfData' = chunk_metadata pdfData \<longrightarrow>
      mkRequest pdfData' message history = mkRequest pdfData message history) \<and>
   load_stateless request \<noteq> Inl SessionNotFoundError"
proof -
  have issued_step: "issued (client_step parse aborts_now s e) = issued s" for s e
    by (cases "phase s"; cases e)
       (auto simp: client_step_def catch_handler_def call_def split: prod.splits bool.splits
             dest: process_lines_issued)
  have issued_run: "issued (run_stream parse aborts_now s es) = issued s" for s
    unfolding run_stream_def
    by (induction es arbitrary: s) (simp_all add: issued_step)
  have none: "st fileId = None \<longrightarrow>
      sendMessage post st fileId message history = (Inl pdf_not_found, []) \<and>
      wrapper_sendMessage post st \<lparr> wr_file_id = fileId, wr_message = message, wr_history = history \<rparr> =
        (Inl pdf_not_found, []) \<and>
      streamChat st fileId message history =
        \<lparr> phase = Closed, aborted = False, delivered = [OnError pdf_not_found], issued = [] \<rparr> \<and>
      run_stream parse aborts_now (streamChat st fileId message history) es =
        streamChat st fileId message history \<and>
      wrapper_streamChat st \<lparr> wr_file_id = fileId, wr_message = message, wr_history = history \<rparr> =
        streamChat st fileId message history"
    by (simp add: sendMessage_def wrapper_sendMessage_def streamChat_def wrapper_streamChat_def
          closed_absorbs)
  have some: "\<forall>pdfData. st fileId = Some pdfData \<longrightarrow>
      sendMessage post st fileId message history =
        (post (mkRequest pdfData message history), [mkRequest pdfData message history]) \<and>
      streamChat st fileId message history =
        \<lparr> phase = AwaitingResponse, aborted = False, delivered = [],
          issued = [mkRequest pdfData message history] \<rparr> \<and>
      issued (run_stream parse aborts_now (streamChat st fileId message history) es) =
        [mkRequest pdfData message history] \<and>
      req_chunks (mkRequest pdfData message history) = chunks pdfData \<and>
      req_embeddings (mkRequest pdfData message history) = embeddings pdfData \<and>
      req_chunk_metadata (mkRequest pdfData message history) = chunk_metadata pdfData \<and>
      req_message (mkRequest pdfData message history) = message \<and>
      req_history (mkRequest pdfData message history) = Some history"
    by (simp add: sendMessage_def streamChat_def issued_run Let_def mkRequest_def)
  have srv: "load_stateless request \<noteq> Inl SessionNotFoundError"
    using load_stateless_result [of request SessionNotFoundError] by auto
  have indep: "chunks pdfData' = chunks pdfData \<and> embeddings pdfData' = embeddings pdfData \<and>
    chunk_metadata pdfData' = chunk_metadata pdfData \<longrightarrow>
      mkRequest pdfData' message history = mkRequest pdfData message history"
    by (simp add: mkRequest_def)
  from none some indep srv show ?thesis by (intro conjI)
qed

theorem missing_payload_fails_locally_witness:
  "sendMessage (\<lambda>request. Inr (length (req_chunks request))) (storePDF Map.empty example_pdf)
       ''nope'' ''q'' [] = (Inl pdf_not_found, []) \<and>
   delivered (run_stream example_parse never
       (streamChat (storePDF Map.empty example_pdf) ''nope'' ''q'' [])
       [Response True 200 True, ReadChunk (sse [''{A}'']), ReadDone]) = [OnError pdf_not_found] \<and>
   issued (run_stream example_parse never
       (streamChat (storePDF Map.empty example_pdf) ''nope'' ''q'' [])
       [Response True 200 True, ReadChunk (sse [''{A}'']), ReadDone]) = [] \<and>
   sendMessage (\<lambda>request. Inr (length (req_chunks request))) (storePDF Map.empty example_pdf)
       ''f1'' ''q'' [] =
     (Inr 2, [\<lparr> req_message = ''q'', req_chunks = [''alpha'', ''beta''],
                 req_embeddings = [[1, 0], [0, 1]],
                 req_chunk_metadata =
                   [\<lparr> meta_page = 1, chunk_index = 0, meta_total_chunks = 1 \<rparr>,
                    \<lparr> meta_page = 2, chunk_index = 0, meta_total_chunks = 1 \<rparr>],
                 req_history = Some [] \<rparr>]) \<and>
   issued (streamChat (storePDF Map.empty example_pdf) ''f1'' ''q'' []) =
     [mkRequest example_pdf ''q'' []]"
proof -
  let ?st = "storePDF Map.empty example_pdf"
  let ?post = "\<lambda>request. Inr (length (req_chunks request)) :: ClientError + nat"
  let ?es = "[Response True 200 True, ReadChunk (sse [''{A}'']), ReadDone]"
  have none: "?st ''nope'' = None" and some: "?st ''f1'' = Some example_pdf"
    by (simp_all add: storePDF_def example_pdf_def)
  note t1 = missing_payload_fails_locally [where st = ?st and fileId = "''nope''"
      and post = ?post and message = "''q''" and history = "[]" and parse = example_parse
      and aborts_now = never and es = ?es]
  note t2 = missing_payload_fails_locally [where st = ?st and fileId = "''f1''"
      and post = ?post and message = "''q''" and history = "[]" and parse = example_parse
      and aborts_now = never and es = ?es]
  from t1 [THEN conjunct1] none
  have a: "sendMessage ?post ?st ''nope'' ''q'' [] = (Inl pdf_not_found, [])"
    and b: "streamChat ?st ''nope'' ''q'' [] =
        \<lparr> phase = Closed, aborted = False, delivered = [OnError pdf_not_found], issued = [] \<rparr>"
    and c: "run_stream example_parse never (streamChat ?st ''nope'' ''q'' []) ?es =
        streamChat ?st ''nope'' ''q'' []"
    by blast+
  from t2 [THEN conjunct2, THEN conjunct1] some
  have d: "sendMessage ?post ?st ''f1'' ''q'' [] =
        (?post (mkRequest example_pdf ''q'' []), [mkRequest example_pdf ''q'' []])"
    and e: "streamChat ?st ''f1'' ''q'' [] =
        \<lparr> phase = AwaitingResponse, aborted = False, delivered = [],
          issued = [mkRequest example_pdf ''q'' []] \<rparr>"
    by blast+
  have f: "mkRequest example_pdf ''q'' [] =
      \<lparr> req_message = ''q'', req_chunks = [''alpha'', ''beta''],
        req_embeddings = [[1, 0], [0, 1]],
        req_chunk_metadata =
          [\<lparr> meta_page = 1, chunk_index = 0, meta_total_chunks = 1 \<rparr>,
           \<lparr> meta_page = 2, chunk_index = 0, meta_total_chunks = 1 \<rparr>],
        req_history = Some [] \<rparr>"
    by (simp add: mkRequest_def example_pdf_def)
  show ?thesis
    unfolding a c d e by (simp add: b f)
qed

text \<open>
  C6, as amended. Once the caller's abort function has been called, the client never calls
  \<open>onError\<close>, and from the moment the pending \<open>fetch\<close> or \<open>read()\<close> rejects (what an abort
  causes while the response body is open) it makes no further callback: no content event, no
  sources event, no completion. This holds for an abort made between two reads and for an abort
  made inside an \<open>onMessage\<close> callback. The client reads the abort signal nowhere else: a read
  that settles with data is processed by an aborted client exactly as by one that was never
  aborted, so the lines that remain in the read during whose callback the abort was made are
  still delivered, and a read that settles with the end of the stream is followed by
  \<open>onComplete\<close>.
\<close>

theorem abort_silences_rejections:
  "(aborted s \<and> phase s = AwaitingResponse \<longrightarrow>
      delivered (run_stream parse aborts_now s (FetchRejected err # es)) = delivered s) \<and>
   (aborted s \<and> phase s = Reading \<longrightarrow>
      delivered (run_stream parse aborts_now s (ReadRejected err # es)) = delivered s) \<and>
   (phase (run_stream parse aborts_now s before) = AwaitingResponse \<longrightarrow>
      delivered (run_stream parse aborts_now s (before @ CallerAbort # FetchRejected err # es)) =
        delivered (run_stream parse aborts_now s before)) \<and>
   (phase (run_stream parse aborts_now s before) = Reading \<longrightarrow>
      delivered (run_stream parse aborts_now s (before @ CallerAbort # ReadRejected err # es)) =
        delivered (run_stream parse aborts_now s before)) \<and>
   (aborted s \<longrightarrow>
      (\<forall>e. OnError e \<in> set (delivered (run_stream parse aborts_now s es)) \<longrightarrow>
           OnError e \<in> set (delivered s))) \<and>
   delivered (client_step parse aborts_now (s\<lparr> aborted := True \<rparr>) (ReadChunk c)) =
     delivered (client_step parse (\<lambda>ds. False) (s\<lparr> aborted := False \<rparr>) (ReadChunk c)) \<and>
   delivered (client_step parse aborts_now s (ReadChunk c)) =
     delivered (client_step parse (\<lambda>ds. False) s (ReadChunk c)) \<and>
   (aborted s \<and> phase s = Reading \<longrightarrow>
      delivered (client_step parse aborts_now s ReadDone) = delivered s @ [OnComplete])"
proof -
  let ?s = "run_stream parse aborts_now s before"
  let ?a = "client_step parse aborts_now ?s CallerAbort"
  have a: "aborted s \<and> phase s = AwaitingResponse \<longrightarrow>
      delivered (run_stream parse aborts_now s (FetchRejected err # es)) = delivered s"
    by (simp add: rejected_closes)
  have b: "aborted s \<and> phase s = Reading \<longrightarrow>
      delivered (run_stream parse aborts_now s (ReadRejected err # es)) = delivered s"
    by (simp add: rejected_closes)
  have split: "run_stream parse aborts_now s (before @ CallerAbort # e # es) =
      run_stream parse aborts_now ?a (e # es)" for e
    by (simp add: run_stream_def)
  have c: "phase ?s = AwaitingResponse \<longrightarrow>
      delivered (run_stream parse aborts_now s (before @ CallerAbort # FetchRejected err # es)) =
        delivered ?s"
  proof
    assume p: "phase ?s = AwaitingResponse"
    then have "aborted ?a" "phase ?a = AwaitingResponse" "delivered ?a = delivered ?s"
      by (simp_all add: abort_step)
    then show "delivered (run_stream parse aborts_now s (before @ CallerAbort # FetchRejected err # es)) =
        delivered ?s"
      unfolding split by (simp add: rejected_closes)
  qed
  have d: "phase ?s = Reading \<longrightarrow>
      delivered (run_stream parse aborts_now s (before @ CallerAbort # ReadRejected err # es)) =
        delivered ?s"
  proof
    assume p: "phase ?s = Reading"
    then have "aborted ?a" "phase ?a = Reading" "delivered ?a = delivered ?s"
      by (simp_all add: abort_step)
    then show "delivered (run_stream parse aborts_now s (before @ CallerAbort # ReadRejected err # es)) =
        delivered ?s"
      unfolding split by (simp add: rejected_closes)
  qed
  have e: "aborted s \<longrightarrow>
      (\<forall>e. OnError e \<in> set (delivered (run_stream parse aborts_now s es)) \<longrightarrow>
           OnError e \<in> set (delivered s))"
    using run_no_error by blast
  have f: "delivered (client_step parse aborts_now (s\<lparr> aborted := True \<rparr>) (ReadChunk c)) =
     delivered (client_step parse (\<lambda>ds. False) (s\<lparr> aborted := False \<rparr>) (ReadChunk c))"
    by (rule resolved_read_same)
  have g: "delivered (client_step parse aborts_now s (ReadChunk c)) =
     delivered (client_step parse (\<lambda>ds. False) s (ReadChunk c))"
    using resolved_read_same(1) [where parse = parse and pol = aborts_now and s = s
        and b = "aborted s" and c = c and pol' = "\<lambda>ds. False" and b' = "aborted s"]
    by simp
  have h: "aborted s \<and> phase s = Reading \<longrightarrow>
      delivered (client_step parse aborts_now s ReadDone) = delivered s @ [OnComplete]"
    by (simp add: client_step_def call_def)
  show ?thesis by (intro conjI a b c d e f g h)
qed

theorem abort_silences_rejections_witness:
  "delivered (run_stream example_parse never
       (streamChat (storePDF Map.empty example_pdf) ''f1'' ''q'' [])
       [Response True 200 True, ReadChunk (sse [''{A}'', ''{B}'']), CallerAbort,
        ReadRejected (Error ''AbortError''),
        ReadChunk (sse [''{C}'', ''{S}'', ''[DONE]'']), ReadDone]) =
     [OnMessage (content_event ''A''), OnMessage (content_event ''B'')] \<and>
   aborted (run_stream example_parse after_two
       (streamChat (storePDF Map.empty example_pdf) ''f1'' ''q'' [])
       [Response True 200 True, ReadChunk (sse [''{A}'', ''{B}''])]) \<and>
   delivered (run_stream example_parse after_two
       (streamChat (storePDF Map.empty example_pdf) ''f1'' ''q'' [])
       [Response True 200 True, ReadChunk (sse [''{A}'', ''{B}'']),
        ReadRejected (Error ''AbortError''),
        ReadChunk (sse [''{C}'', ''{S}'', ''[DONE]'']), ReadDone]) =
     [OnMessage (content_event ''A''), OnMessage (content_event ''B'')] \<and>
   delivered (run_stream example_parse after_two
       (streamChat (storePDF Map.empty example_pdf) ''f1'' ''q'' [])
       [Response True 200 True, ReadChunk (sse [''{A}'', ''{B}'']), ReadDone]) =
     [OnMessage (content_event ''A''), OnMessage (content_event ''B''), OnComplete] \<and>
   delivered (run_stream example_parse never
       (streamChat (storePDF Map.empty example_pdf) ''f1'' ''q'' [])
       [CallerAbort, FetchRejected (Error ''AbortError''), Response True 200 True,
        ReadChunk (sse [''{A}'', ''{B}'']), ReadDone]) = [] \<and>
   OnError (Error ''network'') \<notin> set (delivered (run_stream example_parse after_two
       (streamChat (storePDF Map.empty example_pdf) ''f1'' ''q'' [])
       [Response True 200 True, ReadChunk (sse [''{A}'', ''{B}'']),
        ReadRejected (Error ''network'')]))"
proof -
  let ?start = "streamChat (storePDF Map.empty example_pdf) ''f1'' ''q'' []"
  let ?first = "[Response True 200 True, ReadChunk (sse [''{A}'', ''{B}''])]"
  let ?rest = "[ReadChunk (sse [''{C}'', ''{S}'', ''[DONE]'']), ReadDone]"
  let ?abort = "Error ''AbortError''"
  let ?s2 = "run_stream example_parse after_two ?start ?first"
  have p1: "phase (run_stream example_parse never ?start ?first) = Reading"
    by code_simp
  have d1: "delivered (run_stream example_parse never ?start ?first) =
              [OnMessage (content_event ''A''), OnMessage (content_event ''B'')]"
    by code_simp
  have p2: "phase ?s2 = Reading"
    by code_simp
  have d2: "delivered ?s2 = [OnMessage (content_event ''A''), OnMessage (content_event ''B'')]"
    by code_simp
  have a2: "aborted ?s2"
    by code_simp
  note t1 = abort_silences_rejections [where s = ?start and err = ?abort
      and parse = example_parse and aborts_now = never and es = ?rest and before = ?first]
  note t2 = abort_silences_rejections [where s = ?s2 and err = ?abort
      and parse = example_parse and aborts_now = after_two and es = ?rest and before = "[]"]
  from t1 [THEN conjunct2, THEN conjunct2, THEN conjunct2, THEN conjunct1] p1
  have one: "delivered (run_stream example_parse never ?start
               (?first @ CallerAbort # ReadRejected ?abort # ?rest)) =
             [OnMessage (content_event ''A''), OnMessage (content_event ''B'')]"
    by (simp only: d1)
  from t2 [THEN conjunct2, THEN conjunct1] a2 p2
  have "delivered (run_stream example_parse after_two ?s2 (ReadRejected ?abort # ?rest)) =
        [OnMessage (content_event ''A''), OnMessage (content_event ''B'')]"
    by (simp only: d2)
  then have two: "delivered (run_stream example_parse after_two ?start
                    (?first @ ReadRejected ?abort # ?rest)) =
        [OnMessage (content_event ''A''), OnMessage (content_event ''B'')]"
    by (simp only: run_stream_append)
  from t2 [THEN conjunct2, THEN conjunct2, THEN conjunct2, THEN conjunct2, THEN conjunct2,
           THEN conjunct2, THEN conjunct2] a2 p2
  have "delivered (client_step example_parse after_two ?s2 ReadDone) =
        [OnMessage (content_event ''A''), OnMessage (content_event ''B'')] @ [OnComplete]"
    by (simp only: d2)
  then have three: "delivered (run_stream example_parse after_two ?start (?first @ [ReadDone])) =
        [OnMessage (content_event ''A''), OnMessage (content_event ''B''), OnComplete]"
    by (simp add: run_stream_def)
  note t3 = abort_silences_rejections [where s = ?start and err = ?abort
      and parse = example_parse and aborts_now = never and before = "[]"
      and es = "[Response True 200 True, ReadChunk (sse [''{A}'', ''{B}'']), ReadDone]"]
  have p0: "phase (run_stream example_parse never ?start []) = AwaitingResponse"
    by code_simp
  have d0: "delivered (run_stream example_parse never ?start []) = []"
    by code_simp
  from t3 [THEN conjunct2, THEN conjunct2, THEN conjunct1] p0
  have four: "delivered (run_stream example_parse never ?start
                ([] @ CallerAbort # FetchRejected ?abort #
                 [Response True 200 True, ReadChunk (sse [''{A}'', ''{B}'']), ReadDone])) = []"
    by (simp only: d0)
  note t4 = abort_silences_rejections [where s = ?s2 and parse = example_parse
      and aborts_now = after_two and es = "[ReadRejected (Error ''network'')]"]
  from t4 [THEN conjunct2, THEN conjunct2, THEN conjunct2, THEN conjunct2, THEN conjunct1] a2
  have "OnError (Error ''network'') \<in> set (delivered (run_stream example_parse after_two ?s2
            [ReadRejected (Error ''network'')])) \<longrightarrow>
        OnError (Error ''network'') \<in> set (delivered ?s2)"
    by blast
  then have nf: "OnError (Error ''network'') \<notin> set (delivered (run_stream example_parse after_two ?s2
            [ReadRejected (Error ''network'')]))"
    by (auto simp only: d2 content_event_def set_simps insert_iff empty_iff Callback.distinct)
  have five: "OnError (Error ''network'') \<notin> set (delivered (run_stream example_parse after_two
            ?start (?first @ [ReadRejected (Error ''network'')])))"
    unfolding run_stream_append by (rule nf)
  from one a2 two three four five show ?thesis by simp
qed

text \<open>
  As the specification states it, C6 fails when the caller aborts inside the callback of the
  second content event and the same network read holds further lines: the \<open>for\<close> loop over
  the lines of a read does not look at the abort signal, so the third content event, the
  sources event and the completion are still delivered.
\<close>

theorem abort_in_callback_counterexample:
  "run_stream example_parse after_two (streamChat (storePDF Map.empty example_pdf) ''f1'' ''q'' [])
     [Response True 200 True, ReadChunk (sse [''{A}'', ''{B}'', ''{C}'', ''{S}'', ''[DONE]''])] =
   \<lparr> phase = Closed, aborted = True,
     delivered = [OnMessage (content_event ''A''), OnMessage (content_event ''B''),
                  OnMessage (content_event ''C''), OnMessage (sources_event []), OnComplete],
     issued = [mkRequest example_pdf ''q'' []] \<rparr>"
  by code_simp

section \<open>Properties of the chat component\<close>

lemma update_last_frame:
  "update_last f ms = Some ms' \<Longrightarrow> length ms' = length ms \<and> butlast ms' = butlast ms"
  by (auto simp: update_last_def split: if_splits)

text \<open>
  C8, as amended. The history of a question is only read: the request of handleSubmit carries
  the message list as it stood before the submit, and the client copies the history it is given
  into the request unchanged. handleSubmit appends the user's question and an empty assistant
  placeholder to the message list at submit time, before any event has arrived; the events of
  the stream then change the last message only. So the history sent with a question never
  contains that question itself, and no second question is submitted while one is streaming.
\<close>

theorem history_excludes_current_question:
  "(\<forall>st' request. handleSubmit apiKey fileId st = (st', Some request) \<longrightarrow>
      cr_history request = Some (messages st) \<and>
      cr_message request = trim (input st) \<and>
      cr_file_id request = fileId \<and>
      messages st' =
        messages st @ [\<lparr> role = user, content = trim (input st), sources = None \<rparr>,
                       \<lparr> role = assistant, content = [], sources = Some [] \<rparr>] \<and>
      isStreaming st') \<and>
   (isStreaming st \<longrightarrow> handleSubmit apiKey fileId st = (st, None)) \<and>
   (\<forall>st'. on_event event st = Some st' \<longrightarrow>
      length (messages st') = length (messages st) \<and>
      butlast (messages st') = butlast (messages st)) \<and>
   req_history (mkRequest pdfData message history) = Some history \<and>
   (\<forall>pdfData. pstore fileId = Some pdfData \<longrightarrow>
      issued (streamChat pstore fileId message history) = [mkRequest pdfData message history])"
proof -
  have a: "\<forall>st' request. handleSubmit apiKey fileId st = (st', Some request) \<longrightarrow>
      cr_history request = Some (messages st) \<and>
      cr_message request = trim (input st) \<and>
      cr_file_id request = fileId \<and>
      messages st' =
        messages st @ [\<lparr> role = user, content = trim (input st), sources = None \<rparr>,
                       \<lparr> role = assistant, content = [], sources = Some [] \<rparr>] \<and>
      isStreaming st'"
    by (auto simp: handleSubmit_def Let_def split: if_splits)
  have b: "isStreaming st \<longrightarrow> handleSubmit apiKey fileId st = (st, None)"
    by (simp add: handleSubmit_def)
  have c: "\<forall>st'. on_event event st = Some st' \<longrightarrow>
      length (messages st') = length (messages st) \<and>
      butlast (messages st') = butlast (messages st)"
    by (auto simp: on_event_def split: if_splits dest: update_last_frame)
  have d: "req_history (mkRequest pdfData message history) = Some history"
    by (simp add: mkRequest_def)
  have e: "\<forall>pdfData. pstore fileId = Some pdfData \<longrightarrow>
      issued (streamChat pstore fileId message history) = [mkRequest pdfData message history]"
    by (simp add: streamChat_def)
  show ?thesis by (intro conjI a b c d e)
qed

theorem history_excludes_current_question_witness:
  "handleSubmit (Some ''sk-test-key'') ''f1''
       \<lparr> messages = [\<lparr> role = user, content = ''Q1'', sources = None \<rparr>,
                      \<lparr> role = assistant, content = ''A1'', sources = Some [] \<rparr>],
         input = '' Q2 '', isStreaming = False, currentSources = [], chat_error = None,
         abortStreamRef = True \<rparr> =
     (\<lparr> messages = [\<lparr> role = user, content = ''Q1'', sources = None \<rparr>,
                     \<lparr> role = assistant, content = ''A1'', sources = Some [] \<rparr>,
                     \<lparr> role = user, content = ''Q2'', sources = None \<rparr>,
                     \<lparr> role = assistant, content = [], sources = Some [] \<rparr>],
        input = [], isStreaming = True, currentSources = [], chat_error = None,
        abortStreamRef = True \<rparr>,
      Some \<lparr> cr_file_id = ''f1'', cr_message = ''Q2'',
             cr_history = Some [\<lparr> role = user, content = ''Q1'', sources = None \<rparr>,
                                \<lparr> role = assistant, content = ''A1'', sources = Some [] \<rparr>] \<rparr>) \<and>
   handleSubmit (Some ''sk-test-key'') ''f1'' (fresh_chat\<lparr> input := ''Q'', isStreaming := True \<rparr>) =
     (fresh_chat\<lparr> input := ''Q'', isStreaming := True \<rparr>, None) \<and>
   map_option (\<lambda>st. snd (handleSubmit (Some ''sk-test-key'') ''f1'' (st\<lparr> input := ''Q2'' \<rparr>)))
     (map_option on_complete
        (on_event (content_event ''A1'')
           (fst (handleSubmit (Some ''sk-test-key'') ''f1'' (fresh_chat\<lparr> input := '' Q1 '' \<rparr>))))) =
     Some (Some \<lparr> cr_file_id = ''f1'', cr_message = ''Q2'',
                  cr_history = Some [\<lparr> role = user, content = ''Q1'', sources = None \<rparr>,
                                     \<lparr> role = assistant, content = ''A1'', sources = Some [] \<rparr>] \<rparr>)"
proof -
  let ?st = "\<lparr> messages = [\<lparr> role = user, content = ''Q1'', sources = None \<rparr>,
                      \<lparr> role = assistant, content = ''A1'', sources = Some [] \<rparr>],
         input = '' Q2 '', isStreaming = False, currentSources = [], chat_error = None,
         abortStreamRef = True \<rparr>"
  have t: "trim '' Q2 '' = ''Q2''"
    by code_simp
  obtain st' r where sr: "handleSubmit (Some ''sk-test-key'') ''f1'' ?st = (st', Some r)"
    by (simp add: handleSubmit_def no_key_def t Let_def)
  note th = history_excludes_current_question [where apiKey = "Some ''sk-test-key''"
      and fileId = "''f1''" and st = ?st]
  from th [THEN conjunct1] sr
  have "cr_history r = Some (messages ?st)" "cr_message r = trim (input ?st)" "cr_file_id r = ''f1''"
    "messages st' = messages ?st @ [\<lparr> role = user, content = trim (input ?st), sources = None \<rparr>,
                       \<lparr> role = assistant, content = [], sources = Some [] \<rparr>]"
    by blast+
  moreover have "handleSubmit (Some ''sk-test-key'') ''f1'' ?st =
     (\<lparr> messages = [\<lparr> role = user, content = ''Q1'', sources = None \<rparr>,
                     \<lparr> role = assistant, content = ''A1'', sources = Some [] \<rparr>,
                     \<lparr> role = user, content = ''Q2'', sources = None \<rparr>,
                     \<lparr> role = assistant, content = [], sources = Some [] \<rparr>],
        input = [], isStreaming = True, currentSources = [], chat_error = None,
        abortStreamRef = True \<rparr>,
      Some \<lparr> cr_file_id = ''f1'', cr_message = ''Q2'',
             cr_history = Some [\<lparr> role = user, content = ''Q1'', sources = None \<rparr>,
                                \<lparr> role = assistant, content = ''A1'', sources = Some [] \<rparr>] \<rparr>)"
    by code_simp
  moreover
  from history_excludes_current_question [where apiKey = "Some ''sk-test-key''"
      and fileId = "''f1''" and st = "fresh_chat\<lparr> input := ''Q'', isStreaming := True \<rparr>",
      THEN conjunct2, THEN conjunct1]
  have "handleSubmit (Some ''sk-test-key'') ''f1'' (fresh_chat\<lparr> input := ''Q'', isStreaming := True \<rparr>) =
     (fresh_chat\<lparr> input := ''Q'', isStreaming := True \<rparr>, None)"
    by simp
  moreover
  have "map_option (\<lambda>st. snd (handleSubmit (Some ''sk-test-key'') ''f1'' (st\<lparr> input := ''Q2'' \<rparr>)))
     (map_option on_complete
        (on_event (content_event ''A1'')
           (fst (handleSubmit (Some ''sk-test-key'') ''f1'' (fresh_chat\<lparr> input := '' Q1 '' \<rparr>))))) =
     Some (Some \<lparr> cr_file_id = ''f1'', cr_message = ''Q2'',
                  cr_history = Some [\<lparr> role = user, content = ''Q1'', sources = None \<rparr>,
                                     \<lparr> role = assistant, content = ''A1'', sources = Some [] \<rparr>] \<rparr>)"
    by code_simp
  ultimately show ?thesis by simp
qed

text \<open>
  As the specification states it, C8 fails: the turn is in the caller's message list from the
  submit on, while the question is in flight; and a question that was stopped after a partial answer never
  reaches Complete, yet its turn is part of the history of the next question.
\<close>

theorem turn_appended_at_submit_counterexample:
  "handleSubmit (Some ''sk-test-key'') ''f1'' (fresh_chat\<lparr> input := ''Q1'' \<rparr>) =
     (\<lparr> messages = [\<lparr> role = user, content = ''Q1'', sources = None \<rparr>,
                     \<lparr> role = assistant, content = [], sources = Some [] \<rparr>],
        input = [], isStreaming = True, currentSources = [], chat_error = None,
        abortStreamRef = True \<rparr>,
      Some \<lparr> cr_file_id = ''f1'', cr_message = ''Q1'', cr_history = Some [] \<rparr>) \<and>
   map_option handleStopStreaming
     (on_event (content_event ''par'')
        (fst (handleSubmit (Some ''sk-test-key'') ''f1'' (fresh_chat\<lparr> input := ''Q1'' \<rparr>)))) =
     Some \<lparr> messages = [\<lparr> role = user, content = ''Q1'', sources = None \<rparr>,
                         \<lparr> role = assistant, content = ''par'', sources = Some [] \<rparr>],
            input = [], isStreaming = False, currentSources = [], chat_error = None,
            abortStreamRef = False \<rparr> \<and>
   snd (handleSubmit (Some ''sk-test-key'') ''f1''
          \<lparr> messages = [\<lparr> role = user, content = ''Q1'', sources = None \<rparr>,
                         \<lparr> role = assistant, content = ''par'', sources = Some [] \<rparr>],
            input = ''Q2'', isStreaming = False, currentSources = [], chat_error = None,
            abortStreamRef = False \<rparr>) =
     Some \<lparr> cr_file_id = ''f1'', cr_message = ''Q2'',
            cr_history = Some [\<lparr> role = user, content = ''Q1'', sources = None \<rparr>,
                               \<lparr> role = assistant, content = ''par'', sources = Some [] \<rparr>] \<rparr>"
  by code_simp

section \<open>Properties of the upload component\<close>

lemma handleFileUpload_calls:
  "(f, k) \<in> set (upload_calls (handleFileUpload uploadPDF apiKey file st)) \<Longrightarrow>
   f = file \<and> file_type f = ''application/pdf'' \<and> file_size f \<le> 10 * 1024 * 1024 \<and>
   \<not> no_key apiKey \<and> k = the apiKey"
  by (cases "uploadPDF file (the apiKey)")
     (auto simp: handleFileUpload_def maxSize_def Let_def split: if_splits)

text \<open>
  C9. For every file offered for upload, the component rejects a file whose declared type is not
  \<open>application/pdf\<close> or whose size exceeds 10 * 1024 * 1024 bytes: it reports an error, which
  names the failed check, and calls neither uploadPDF nor onFileUploaded; a file of the accepted
  type at or under the limit is submitted (uploadPDF is called once, with the file and the
  key). A file is offered through the file input or by a drop, and only while the page shows
  the component, that is, while an API key is set. Of the files of one drop the first PDF is
  the one offered, and a drop without a PDF is rejected with the type error. Whatever is
  offered, a file that is uploaded has the accepted type and is within the limit.
\<close>

theorem upload_validation:
  "(\<not> no_key apiKey \<and> (file_type candidate \<noteq> ''application/pdf'' \<or> 10 * 1024 * 1024 < file_size candidate) \<longrightarrow>
      upload_calls (handleFileUpload uploadPDF apiKey candidate st) = [] \<and>
      uploaded_ids (handleFileUpload uploadPDF apiKey candidate st) = [] \<and>
      upload_error (final_state (handleFileUpload uploadPDF apiKey candidate st)) =
        Some (if file_type candidate \<noteq> ''application/pdf'' then ''Please select a PDF file''
              else ''File size must be less than 10MB'')) \<and>
   (\<not> no_key apiKey \<and> file_type candidate = ''application/pdf'' \<and> file_size candidate \<le> 10 * 1024 * 1024 \<longrightarrow>
      upload_calls (handleFileUpload uploadPDF apiKey candidate st) = [(candidate, the apiKey)]) \<and>
   ((HomePage_upload uploadPDF apiKey offer st = None) = no_key apiKey) \<and>
   (\<forall>r. HomePage_upload uploadPDF apiKey (Selected (candidate # others)) st = Some r \<longrightarrow>
        r = handleFileUpload uploadPDF apiKey candidate st) \<and>
   (\<forall>r. HomePage_upload uploadPDF apiKey (Dropped files) st = Some r \<longrightarrow>
        (case find (\<lambda>f. file_type f = ''application/pdf'') files of
           None \<Rightarrow>
             upload_calls r = [] \<and> uploaded_ids r = [] \<and>
             upload_error (final_state r) = Some ''Please select a PDF file''
         | Some pdfFile \<Rightarrow> r = handleFileUpload uploadPDF apiKey pdfFile (st\<lparr> isDragging := False \<rparr>))) \<and>
   (\<forall>r f k. HomePage_upload uploadPDF apiKey offer st = Some r \<and> (f, k) \<in> set (upload_calls r) \<longrightarrow>
        file_type f = ''application/pdf'' \<and> file_size f \<le> 10 * 1024 * 1024 \<and> apiKey = Some k)"
proof -
  have a: "\<not> no_key apiKey \<and> (file_type candidate \<noteq> ''application/pdf'' \<or> 10 * 1024 * 1024 < file_size candidate) \<longrightarrow>
      upload_calls (handleFileUpload uploadPDF apiKey candidate st) = [] \<and>
      uploaded_ids (handleFileUpload uploadPDF apiKey candidate st) = [] \<and>
      upload_error (final_state (handleFileUpload uploadPDF apiKey candidate st)) =
        Some (if file_type candidate \<noteq> ''application/pdf'' then ''Please select a PDF file''
              else ''File size must be less than 10MB'')"
    by (simp add: handleFileUpload_def maxSize_def)
  have b: "\<not> no_key apiKey \<and> file_type candidate = ''application/pdf'' \<and> file_size candidate \<le> 10 * 1024 * 1024 \<longrightarrow>
      upload_calls (handleFileUpload uploadPDF apiKey candidate st) = [(candidate, the apiKey)]"
    by (cases "uploadPDF candidate (the apiKey)")
       (simp_all add: handleFileUpload_def maxSize_def Let_def)
  have c: "(HomePage_upload uploadPDF apiKey offer st = None) = no_key apiKey"
    by (simp add: HomePage_upload_def)
  have d: "\<forall>r. HomePage_upload uploadPDF apiKey (Selected (candidate # others)) st = Some r \<longrightarrow>
        r = handleFileUpload uploadPDF apiKey candidate st"
    by (auto simp: HomePage_upload_def handleFileSelect_def split: if_splits)
  have e: "\<forall>r. HomePage_upload uploadPDF apiKey (Dropped files) st = Some r \<longrightarrow>
        (case find (\<lambda>f. file_type f = ''application/pdf'') files of
           None \<Rightarrow>
             upload_calls r = [] \<and> uploaded_ids r = [] \<and>
             upload_error (final_state r) = Some ''Please select a PDF file''
         | Some pdfFile \<Rightarrow> r = handleFileUpload uploadPDF apiKey pdfFile (st\<lparr> isDragging := False \<rparr>))"
    by (auto simp: HomePage_upload_def handleDrop_def Let_def split: if_splits option.splits)
  have f: "\<forall>r f k. HomePage_upload uploadPDF apiKey offer st = Some r \<and> (f, k) \<in> set (upload_calls r) \<longrightarrow>
        file_type f = ''application/pdf'' \<and> file_size f \<le> 10 * 1024 * 1024 \<and> apiKey = Some k"
  proof (intro allI impI)
    fix r f k
    assume h: "HomePage_upload uploadPDF apiKey offer st = Some r \<and> (f, k) \<in> set (upload_calls r)"
    then have key: "\<not> no_key apiKey"
      by (auto simp: HomePage_upload_def split: if_splits)
    then obtain k0 where k0: "apiKey = Some k0"
      by (cases apiKey) (simp_all add: no_key_def)
    from h key have "\<exists>candidate st'. (f, k) \<in> set (upload_calls (handleFileUpload uploadPDF apiKey candidate st'))"
      by (cases offer)
         (auto simp: HomePage_upload_def handleFileSelect_def handleDrop_def Let_def
               split: list.splits option.splits)
    then obtain file' st' where
      "(f, k) \<in> set (upload_calls (handleFileUpload uploadPDF apiKey file' st'))"
      by blast
    from handleFileUpload_calls [OF this] k0
    show "file_type f = ''application/pdf'' \<and> file_size f \<le> 10 * 1024 * 1024 \<and> apiKey = Some k"
      by auto
  qed
  show ?thesis by (intro conjI a b c d e f)
qed

theorem upload_validation_witness:
  "HomePage_upload example_upload None (Selected [example_file]) fresh_upload = None \<and>
   map_option upload_calls
     (HomePage_upload example_upload (Some ''sk-test-key'') (Selected [example_file]) fresh_upload) =
     Some [(example_file, ''sk-test-key'')] \<and>
   upload_calls (handleFileUpload example_upload (Some ''sk-test-key'')
       (example_file\<lparr> file_size := 10 * 1024 * 1024 + 1 \<rparr>) fresh_upload) = [] \<and>
   upload_error (final_state (handleFileUpload example_upload (Some ''sk-test-key'')
       (example_file\<lparr> file_size := 10 * 1024 * 1024 + 1 \<rparr>) fresh_upload)) =
     Some ''File size must be less than 10MB'' \<and>
   upload_calls (handleFileUpload example_upload (Some ''sk-test-key'')
       (example_file\<lparr> file_size := 10 * 1024 * 1024 \<rparr>) fresh_upload) =
     [(example_file\<lparr> file_size := 10 * 1024 * 1024 \<rparr>, ''sk-test-key'')] \<and>
   upload_calls (handleFileUpload example_upload (Some ''sk-test-key'')
       (example_file\<lparr> file_type := ''text/plain'' \<rparr>) fresh_upload) = [] \<and>
   upload_error (final_state (handleFileUpload example_upload (Some ''sk-test-key'')
       (example_file\<lparr> file_type := ''text/plain'' \<rparr>) fresh_upload)) =
     Some ''Please select a PDF file'' \<and>
   map_option (\<lambda>r. (upload_calls r, upload_error (final_state r)))
     (HomePage_upload example_upload (Some ''sk-test-key'')
        (Dropped [example_file\<lparr> file_type := ''text/plain'' \<rparr>]) fresh_upload) =
     Some ([], Some ''Please select a PDF file'') \<and>
   map_option upload_calls
     (HomePage_upload example_upload (Some ''sk-test-key'')
        (Dropped [example_file\<lparr> file_type := ''text/plain'' \<rparr>, example_file]) fresh_upload) =
     Some [(example_file, ''sk-test-key'')]"
proof -
  let ?key = "Some ''sk-test-key''"
  let ?big = "example_file\<lparr> file_size := 10 * 1024 * 1024 + 1 \<rparr>"
  let ?max = "example_file\<lparr> file_size := 10 * 1024 * 1024 \<rparr>"
  let ?txt = "example_file\<lparr> file_type := ''text/plain'' \<rparr>"
  have k: "\<not> no_key ?key" by (simp add: no_key_def)
  have n: "no_key None" by (simp add: no_key_def)
  note t0 = upload_validation [where apiKey = None and candidate = example_file
      and uploadPDF = example_upload and st = fresh_upload and offer = "Selected [example_file]"]
  note t1 = upload_validation [where apiKey = ?key and candidate = example_file and others = "[]"
      and uploadPDF = example_upload and st = fresh_upload and offer = "Selected [example_file]"]
  note t2 = upload_validation [where apiKey = ?key and candidate = ?big
      and uploadPDF = example_upload and st = fresh_upload]
  note t3 = upload_validation [where apiKey = ?key and candidate = ?max
      and uploadPDF = example_upload and st = fresh_upload]
  note t4 = upload_validation [where apiKey = ?key and candidate = ?txt
      and uploadPDF = example_upload and st = fresh_upload and files = "[?txt]"]
  note t5 = upload_validation [where apiKey = ?key
      and uploadPDF = example_upload and st = fresh_upload and files = "[?txt, example_file]"]
  from t0 [THEN conjunct2, THEN conjunct2, THEN conjunct1] n
  have w0: "HomePage_upload example_upload None (Selected [example_file]) fresh_upload = None"
    by simp
  from t1 [THEN conjunct2, THEN conjunct2, THEN conjunct1] k
  obtain r1 where r1: "HomePage_upload example_upload ?key (Selected [example_file]) fresh_upload = Some r1"
    by auto
  with t1 [THEN conjunct2, THEN conjunct2, THEN conjunct2, THEN conjunct1]
  have "r1 = handleFileUpload example_upload ?key example_file fresh_upload"
    by blast
  moreover from t1 [THEN conjunct2, THEN conjunct1] k
  have "upload_calls (handleFileUpload example_upload ?key example_file fresh_upload) =
          [(example_file, ''sk-test-key'')]"
    by (simp add: example_file_def)
  ultimately have w1: "map_option upload_calls
     (HomePage_upload example_upload ?key (Selected [example_file]) fresh_upload) =
     Some [(example_file, ''sk-test-key'')]"
    using r1 by simp
  from t2 [THEN conjunct1] k
  have w2: "upload_calls (handleFileUpload example_upload ?key ?big fresh_upload) = []"
    and w3: "upload_error (final_state (handleFileUpload example_upload ?key ?big fresh_upload)) =
       Some ''File size must be less than 10MB''"
    by (simp_all add: example_file_def)
  from t3 [THEN conjunct2, THEN conjunct1] k
  have w4: "upload_calls (handleFileUpload example_upload ?key ?max fresh_upload) =
     [(?max, ''sk-test-key'')]"
    by (simp add: example_file_def)
  from t4 [THEN conjunct1] k
  have w5: "upload_calls (handleFileUpload example_upload ?key ?txt fresh_upload) = []"
    and w6: "upload_error (final_state (handleFileUpload example_upload ?key ?txt fresh_upload)) =
       Some ''Please select a PDF file''"
    by (simp_all add: example_file_def)
  have w7: "map_option (\<lambda>r. (upload_calls r, upload_error (final_state r)))
     (HomePage_upload example_upload ?key (Dropped [?txt]) fresh_upload) =
     Some ([], Some ''Please select a PDF file'')"
    by (simp add: HomePage_upload_def handleDrop_def no_key_def example_file_def)
  have w8: "map_option upload_calls
     (HomePage_upload example_upload ?key (Dropped [?txt, example_file]) fresh_upload) =
     Some [(example_file, ''sk-test-key'')]"
    by (simp add: HomePage_upload_def handleDrop_def handleFileUpload_def no_key_def
          example_file_def example_upload_def maxSize_def)
  from w0 w1 w2 w3 w4 w5 w6 w7 w8 show ?thesis by (intro conjI)
qed

section \<open>Chunker: windows and overlap\<close>

declare slice_from.simps [simp del]


lemma slice_from_nth:
  "overlap < chunk_size \<Longrightarrow> i < length (slice_from chunk_size overlap pg start) \<Longrightarrow>
   slice_from chunk_size overlap pg start ! i =
     take chunk_size (drop (start + i * (chunk_size - overlap)) pg) \<and>
   start + i * (chunk_size - overlap) < length pg"
proof (induction chunk_size overlap pg start arbitrary: i rule: slice_from.induct)
  case (1 chunk_size overlap pg start)
  show ?case
  proof (cases i)
    case 0
    with "1.prems" show ?thesis
      by (subst slice_from.simps) (auto simp: slice_from.simps [of chunk_size overlap pg start] split: if_splits)
  next
    case (Suc j)
    with "1.prems" have more: "\<not> length pg \<le> start + chunk_size" "\<not> (chunk_size \<le> overlap \<or> length pg \<le> start)"
      by (auto simp: slice_from.simps [of chunk_size overlap pg start] split: if_splits)
    with "1.prems" Suc have j: "j < length (slice_from chunk_size overlap pg (start + (chunk_size - overlap)))"
      by (simp add: slice_from.simps [of chunk_size overlap pg start])
    from "1.IH" [OF more(2) more(1) "1.prems"(1) j]
    show ?thesis using more Suc
      by (simp add: slice_from.simps [of chunk_size overlap pg start] add.assoc add.commute add.left_commute)
  qed
qed




lemma slice_from_inner:
  "overlap < chunk_size \<Longrightarrow> Suc i < length (slice_from chunk_size overlap pg start) \<Longrightarrow>
   start + i * (chunk_size - overlap) + chunk_size < length pg"
proof (induction chunk_size overlap pg start arbitrary: i rule: slice_from.induct)
  case (1 chunk_size overlap pg start)
  from "1.prems" have more: "\<not> length pg \<le> start + chunk_size" "\<not> (chunk_size \<le> overlap \<or> length pg \<le> start)"
    by (auto simp: slice_from.simps [of chunk_size overlap pg start] split: if_splits)
  show ?case
  proof (cases i)
    case 0
    with more show ?thesis by simp
  next
    case (Suc j)
    with "1.prems" more have j: "Suc j < length (slice_from chunk_size overlap pg (start + (chunk_size - overlap)))"
      by (simp add: slice_from.simps [of chunk_size overlap pg start])
    from "1.IH" [OF more(2) more(1) "1.prems"(1) j]
    show ?thesis using Suc by (simp add: add.assoc add.commute add.left_commute)
  qed
qed




lemma slice_from_last:
  "overlap < chunk_size \<Longrightarrow> start < length pg \<Longrightarrow>
   slice_from chunk_size overlap pg start \<noteq> [] \<and>
   length pg \<le> start + (length (slice_from chunk_size overlap pg start) - 1) * (chunk_size - overlap) + chunk_size"
proof (induction chunk_size overlap pg start rule: slice_from.induct)
  case (1 chunk_size overlap pg start)
  show ?case
  proof (cases "length pg \<le> start + chunk_size")
    case True
    with "1.prems" show ?thesis by (simp add: slice_from.simps [of chunk_size overlap pg start])
  next
    case False
    define rest where "rest = slice_from chunk_size overlap pg (start + (chunk_size - overlap))"
    from "1.prems" have a: "\<not> (chunk_size \<le> overlap \<or> length pg \<le> start)" by simp
    from False "1.prems" have b: "start + (chunk_size - overlap) < length pg" by simp
    from "1.IH" [OF a False "1.prems"(1) b]
    have ih: "rest \<noteq> []"
      "length pg \<le> start + (chunk_size - overlap) + (length rest - 1) * (chunk_size - overlap) + chunk_size"
      by (simp_all add: rest_def)
    from ih(1) obtain n where n: "length rest = Suc n" by (cases rest) simp_all
    have eq: "slice_from chunk_size overlap pg start = take chunk_size (drop start pg) # rest"
      using a False by (simp add: slice_from.simps [of chunk_size overlap pg start] rest_def)
    from ih(2) n have "length pg \<le> start + Suc n * (chunk_size - overlap) + chunk_size"
      by simp
    with eq n show ?thesis by simp
  qed
qed




lemma map_chunk_text_page_chunks: "map chunk_text (page_chunks p ws) = ws"
  by (simp add: page_chunks_def enumerate_eq_zip map_nth case_prod_beta o_def)



lemma map_snd_enumerate: "map (\<lambda>x. f (snd x)) (enumerate n xs) = map f xs"
  by (induction xs arbitrary: n) simp_all

lemma chunk_texts:
  "chunk page_texts chunk_size overlap = Inr out \<Longrightarrow>
   map chunk_text out = concat (map (split_page chunk_size overlap) page_texts)"
proof -
  assume a: "chunk page_texts chunk_size overlap = Inr out"
  have "map chunk_text out =
          concat (map (\<lambda>x. map chunk_text (page_chunks (fst x) (split_page chunk_size overlap (snd x))))
                    (enumerate 1 page_texts))"
    using a by (auto simp: chunk_def Let_def map_concat o_def case_prod_beta split: if_splits)
  also have "\<dots> = concat (map (\<lambda>x. split_page chunk_size overlap (snd x)) (enumerate 1 page_texts))"
    by (simp add: map_chunk_text_page_chunks)
  also have "\<dots> = concat (map (split_page chunk_size overlap) page_texts)"
    by (simp add: map_snd_enumerate)
  finally show ?thesis .
qed

lemma example_split: "split_page 10 3 ''ABCDEFGHIJKLMNO'' = [''ABCDEFGHIJ'', ''HIJKLMNO'']"
  by code_simp

lemma example_chunk:
  "chunk [''ABCDEFGHIJKLMNO''] 10 3 =
     Inr [\<lparr> chunk_text = ''ABCDEFGHIJ'', page_number = 1, ordinal_index = 0, total_chunks = 2 \<rparr>,
          \<lparr> chunk_text = ''HIJKLMNO'', page_number = 1, ordinal_index = 1, total_chunks = 2 \<rparr>]"
  by (simp add: chunk_def example_split page_chunks_def)

text \<open>
  C1. For every page text and valid parameters (overlap < chunk_size), the chunk operation slices
  the page into windows of length chunk_size whose start offsets advance by
  chunk_size - overlap: window \<open>i\<close> is the text from offset \<open>i * (chunk_size - overlap)\<close>, cut
  after chunk_size characters. Every window but the last is full, and its last \<open>overlap\<close>
  characters are the first \<open>overlap\<close> characters of the next window; the last window reaches
  the end of the page and may be shorter. The texts of the chunks of a document are the windows
  of its pages, in order. With chunk_size 10 and overlap 3 the 15-character page
  ABCDEFGHIJKLMNO yields exactly the two chunks ABCDEFGHIJ and HIJKLMNO, the second starting at
  offset 7.
\<close>

theorem chunk_windows:
  assumes "overlap < chunk_size"
  shows
    "(\<forall>i < length (split_page chunk_size overlap pg).
        split_page chunk_size overlap pg ! i = take chunk_size (drop (i * (chunk_size - overlap)) pg) \<and>
        i * (chunk_size - overlap) < length pg) \<and>
     (\<forall>i. Suc i < length (split_page chunk_size overlap pg) \<longrightarrow>
        length (split_page chunk_size overlap pg ! i) = chunk_size \<and>
        take overlap (split_page chunk_size overlap pg ! Suc i) =
          drop (chunk_size - overlap) (split_page chunk_size overlap pg ! i)) \<and>
     (pg \<noteq> [] \<longrightarrow>
        split_page chunk_size overlap pg \<noteq> [] \<and>
        length (last (split_page chunk_size overlap pg)) \<le> chunk_size \<and>
        length pg \<le> (length (split_page chunk_size overlap pg) - 1) * (chunk_size - overlap) + chunk_size) \<and>
     (\<forall>page_texts out. chunk page_texts chunk_size overlap = Inr out \<longrightarrow>
        map chunk_text out = concat (map (split_page chunk_size overlap) page_texts)) \<and>
     split_page 10 3 ''ABCDEFGHIJKLMNO'' = [''ABCDEFGHIJ'', ''HIJKLMNO''] \<and>
     ''HIJKLMNO'' = take 10 (drop (10 - 3) ''ABCDEFGHIJKLMNO'') \<and>
     chunk [''ABCDEFGHIJKLMNO''] 10 3 =
       Inr [\<lparr> chunk_text = ''ABCDEFGHIJ'', page_number = 1, ordinal_index = 0, total_chunks = 2 \<rparr>,
            \<lparr> chunk_text = ''HIJKLMNO'', page_number = 1, ordinal_index = 1, total_chunks = 2 \<rparr>]"
proof -
  let ?ws = "split_page chunk_size overlap pg"
  let ?step = "chunk_size - overlap"
  have nth: "?ws ! i = take chunk_size (drop (i * ?step) pg) \<and> i * ?step < length pg"
    if "i < length ?ws" for i
    using slice_from_nth [OF assms, of i pg 0] that by (simp add: split_page_def)
  have inner: "i * ?step + chunk_size < length pg" if "Suc i < length ?ws" for i
    using slice_from_inner [OF assms, of i pg 0] that by (simp add: split_page_def)
  have ov: "length (?ws ! i) = chunk_size \<and> take overlap (?ws ! Suc i) = drop ?step (?ws ! i)"
    if s: "Suc i < length ?ws" for i
  proof -
    from s have i: "i < length ?ws" by simp
    have len: "length (?ws ! i) = chunk_size"
      using nth [OF i] inner [OF s] by simp
    have "take overlap (?ws ! Suc i) = take overlap (drop (Suc i * ?step) pg)"
      using nth [OF s] assms by (simp add: min_def)
    also have "\<dots> = drop ?step (take chunk_size (drop (i * ?step) pg))"
      using assms by (simp add: drop_take add.commute)
    also have "\<dots> = drop ?step (?ws ! i)"
      using nth [OF i] by simp
    finally show ?thesis using len by simp
  qed
  have fin: "?ws \<noteq> [] \<and> length (last ?ws) \<le> chunk_size \<and>
             length pg \<le> (length ?ws - 1) * ?step + chunk_size" if "pg \<noteq> []"
  proof -
    from that have "0 < length pg" by simp
    from slice_from_last [OF assms this]
    have ne: "?ws \<noteq> []" and reach: "length pg \<le> (length ?ws - 1) * ?step + chunk_size"
      by (simp_all add: split_page_def)
    from ne have "last ?ws = ?ws ! (length ?ws - 1)" by (simp add: last_conv_nth)
    moreover from ne have "length ?ws - 1 < length ?ws" by simp
    ultimately have "length (last ?ws) \<le> chunk_size" using nth by simp
    with ne reach show ?thesis by simp
  qed
  have ex2: "''HIJKLMNO'' = take 10 (drop (10 - 3) ''ABCDEFGHIJKLMNO'')" by simp
  show ?thesis
    using nth ov fin chunk_texts example_split example_chunk ex2 by blast
qed

theorem chunk_windows_witness:
  "(3::nat) < 10 \<and>
   split_page 10 3 ''ABCDEFGHIJKLMNO'' ! 0 = ''ABCDEFGHIJ'' \<and>
   split_page 10 3 ''ABCDEFGHIJKLMNO'' ! 1 = ''HIJKLMNO'' \<and>
   take 3 (split_page 10 3 ''ABCDEFGHIJKLMNO'' ! 1) = ''HIJ'' \<and>
   drop 7 (split_page 10 3 ''ABCDEFGHIJKLMNO'' ! 0) = ''HIJ'' \<and>
   length (last (split_page 10 3 ''ABCDEFGHIJKLMNO'')) = 8"
proof -
  have h: "(3::nat) < 10" by simp
  from chunk_windows [OF h, of "''ABCDEFGHIJKLMNO''"]
  have "split_page 10 3 ''ABCDEFGHIJKLMNO'' = [''ABCDEFGHIJ'', ''HIJKLMNO'']" by blast
  then show ?thesis by simp
qed

section \<open>Retriever: order of the results\<close>

lemma set_insert_desc: "set (insert_desc x ys) = insert x (set ys)"
  by (induction ys) auto

lemma sorted_insert_desc:
  "sorted_wrt (\<lambda>a b. snd b \<le> snd a) ys \<Longrightarrow> sorted_wrt (\<lambda>a b. snd b \<le> snd a) (insert_desc x ys)"
  by (induction ys) (auto simp: set_insert_desc)

lemma sorted_sort_desc: "sorted_wrt (\<lambda>a b. snd b \<le> snd a) (sort_desc xs)"
  by (induction xs) (simp_all add: sort_desc_def sorted_insert_desc)

lemma filter_insert_desc:
  "filter (\<lambda>p. snd p = v) (insert_desc x ys) =
     (if snd x = v then x # filter (\<lambda>p. snd p = v) ys else filter (\<lambda>p. snd p = v) ys)"
  by (induction ys) auto

lemma filter_sort_desc: "filter (\<lambda>p. snd p = v) (sort_desc xs) = filter (\<lambda>p. snd p = v) xs"
  by (induction xs) (simp_all add: sort_desc_def filter_insert_desc)

lemma length_insert_desc: "length (insert_desc x ys) = Suc (length ys)"
  by (induction ys) auto

lemma length_sort_desc: "length (sort_desc xs) = length xs"
  by (induction xs) (simp_all add: sort_desc_def length_insert_desc)

lemma sorted_take_desc:
  "sorted_wrt (\<lambda>a b. snd b \<le> snd a) xs \<Longrightarrow> sorted_wrt (\<lambda>a b. snd b \<le> (snd a :: real)) (take k xs)"
  by (simp add: sorted_wrt_take)

text \<open>
  C5. The retrieve operation is deterministic and stable. Its result is a function of the query
  vector, the candidate sequence and \<open>k\<close> alone, so two calls with identical inputs return
  identical result sequences. The ranking has \<open>min k (length candidates)\<close> entries in descending
  order of similarity, and for every similarity value the ranked candidates of that value are
  an initial segment of the candidates of that value in their original order. This holds for
  every similarity function, in particular for the cosine similarity of \<open>retrieve\<close>.
\<close>

theorem retrieve_stable:
  "(query = query' \<and> candidates = candidates' \<and> k = k' \<longrightarrow>
      retrieve_by sim query candidates k = retrieve_by sim query' candidates' k') \<and>
   retrieve_by sim query candidates k =
     map (\<lambda>(c, x). \<lparr> rc_chunk = c, rc_score = clamp01 x \<rparr>) (ranked sim query candidates k) \<and>
   length (ranked sim query candidates k) = min k (length candidates) \<and>
   sorted_wrt (\<lambda>a b. snd b \<le> snd a) (ranked sim query candidates k) \<and>
   (\<forall>v. prefix (filter (\<lambda>p. snd p = v) (ranked sim query candidates k))
               (filter (\<lambda>p. snd p = v) (scored sim query candidates))) \<and>
   retrieve query candidates k = retrieve_by cosine_similarity query candidates k"
proof -
  have len: "length (ranked sim query candidates k) = min k (length candidates)"
    by (simp add: ranked_def scored_def length_sort_desc min.commute)
  have srt: "sorted_wrt (\<lambda>a b. snd b \<le> snd a) (ranked sim query candidates k)"
    unfolding ranked_def by (rule sorted_take_desc) (rule sorted_sort_desc)
  have stable: "prefix (filter (\<lambda>p. snd p = v) (ranked sim query candidates k))
                       (filter (\<lambda>p. snd p = v) (scored sim query candidates))" for v
  proof -
    have "prefix (take k (sort_desc (scored sim query candidates))) (sort_desc (scored sim query candidates))"
      by (rule take_is_prefix)
    then have "prefix (filter (\<lambda>p. snd p = v) (take k (sort_desc (scored sim query candidates))))
                      (filter (\<lambda>p. snd p = v) (sort_desc (scored sim query candidates)))"
      by (rule filter_mono_prefix)
    then show ?thesis by (simp add: ranked_def filter_sort_desc)
  qed
  show ?thesis using len srt stable by (simp add: retrieve_by_def retrieve_def)
qed

theorem retrieve_stable_witness:
  "ranked cosine_similarity [1, 0] example_candidates 3 =
     [(\<lparr> chunk_text = ''b'', page_number = 1, ordinal_index = 1, total_chunks = 3 \<rparr>, 1),
      (\<lparr> chunk_text = ''a'', page_number = 1, ordinal_index = 0, total_chunks = 3 \<rparr>, 0),
      (\<lparr> chunk_text = ''c'', page_number = 1, ordinal_index = 2, total_chunks = 3 \<rparr>, 0)] \<and>
   prefix (filter (\<lambda>p. snd p = 0) (ranked cosine_similarity [1, 0] example_candidates 2))
          (filter (\<lambda>p. snd p = 0) (scored cosine_similarity [1, 0] example_candidates)) \<and>
   retrieve [1, 0] example_candidates 2 =
     [\<lparr> rc_chunk = \<lparr> chunk_text = ''b'', page_number = 1, ordinal_index = 1, total_chunks = 3 \<rparr>,
        rc_score = 1 \<rparr>,
      \<lparr> rc_chunk = \<lparr> chunk_text = ''a'', page_number = 1, ordinal_index = 0, total_chunks = 3 \<rparr>,
        rc_score = 0 \<rparr>]"
proof -
  have a: "ranked cosine_similarity [1, 0] example_candidates 3 =
     [(\<lparr> chunk_text = ''b'', page_number = 1, ordinal_index = 1, total_chunks = 3 \<rparr>, 1),
      (\<lparr> chunk_text = ''a'', page_number = 1, ordinal_index = 0, total_chunks = 3 \<rparr>, 0),
      (\<lparr> chunk_text = ''c'', page_number = 1, ordinal_index = 2, total_chunks = 3 \<rparr>, 0)]"
    by (simp add: ranked_def scored_def sort_desc_def example_candidates_def
          cosine_similarity_def dot_def)
  have c: "retrieve [1, 0] example_candidates 2 =
     [\<lparr> rc_chunk = \<lparr> chunk_text = ''b'', page_number = 1, ordinal_index = 1, total_chunks = 3 \<rparr>,
        rc_score = 1 \<rparr>,
      \<lparr> rc_chunk = \<lparr> chunk_text = ''a'', page_number = 1, ordinal_index = 0, total_chunks = 3 \<rparr>,
        rc_score = 0 \<rparr>]"
    by (simp add: retrieve_def retrieve_by_def ranked_def scored_def sort_desc_def
          example_candidates_def cosine_similarity_def dot_def clamp01_def)
  from retrieve_stable [where query = "[1, 0]" and query' = "[1, 0]"
      and candidates = example_candidates and candidates' = example_candidates
      and k = 2 and k' = 2 and sim = cosine_similarity]
  have "prefix (filter (\<lambda>p. snd p = 0) (ranked cosine_similarity [1, 0] example_candidates 2))
          (filter (\<lambda>p. snd p = 0) (scored cosine_similarity [1, 0] example_candidates))"
    by blast
  with a c show ?thesis by (intro conjI)
qed

section \<open>Sessions: alignment\<close>














section \<open>Answer synthesizer: order of the events\<close>

lemma contents_of_append: "contents_of (xs @ ys) = contents_of xs @ contents_of ys"
  by (simp add: contents_of_def)

lemma synth_inv_step: "synth_inv s \<Longrightarrow> synth_inv (synth_step s sig)"
  by (cases "synth_phase s"; cases sig)
     (auto simp: synth_inv_def emit_def contents_of_append contents_of_def)

lemma synth_inv_run: "synth_inv s \<Longrightarrow> synth_inv (synthesize s sigs)"
  unfolding synthesize_def
  by (induction sigs arbitrary: s) (simp_all add: synth_inv_step del: synth_step.simps)

lemma contents_step:
  "contents_of (emitted (synth_step s sig)) =
     contents_of (emitted s) @
       (case sig of Token t \<Rightarrow> if synth_phase s = Generating then [t] else [] | _ \<Rightarrow> [])"
  by (cases "synth_phase s"; cases sig) (auto simp: emit_def contents_of_def)

lemma contents_run:
  "\<exists>sub. subseq sub (tokens_of sigs) \<and>
         contents_of (emitted (synthesize s sigs)) = contents_of (emitted s) @ sub"
proof (induction sigs arbitrary: s)
  case Nil
  show ?case by (simp add: synthesize_def tokens_of_def)
next
  case (Cons sig sigs)
  from Cons.IH [of "synth_step s sig"] obtain sub where
    sub: "subseq sub (tokens_of sigs)"
      "contents_of (emitted (synthesize (synth_step s sig) sigs)) =
         contents_of (emitted (synth_step s sig)) @ sub"
    by blast
  let ?d = "case sig of Token t \<Rightarrow> if synth_phase s = Generating then [t] else [] | _ \<Rightarrow> []"
  have "subseq (?d @ sub) (tokens_of (sig # sigs))"
    using sub(1) by (cases sig) (auto simp: tokens_of_def)
  moreover have "contents_of (emitted (synthesize s (sig # sigs))) = contents_of (emitted s) @ ?d @ sub"
    using sub(2) contents_step [of s sig] by (simp add: synthesize_def del: synth_step.simps)
  ultimately show ?case by blast
qed

lemma synthesize_tokens:
  "synth_phase s = Generating \<Longrightarrow>
   synthesize s (map Token ts) = s\<lparr> emitted := emitted s @ map Content ts \<rparr>"
  by (induction ts arbitrary: s) (simp_all add: synthesize_def emit_def)

text \<open>
  C3. For every successful question the emitted event sequence consists of zero or more content
  events in backend-arrival order, followed by exactly one sources event, followed by the
  completion marker: the exchange of a successful question (the question, the retrieval result,
  the tokens, the end of generation) emits exactly the tokens in order, then the sources, then
  the marker; and every run that ends in Complete has this shape, its content events being
  tokens of the run in their order of arrival.
\<close>

theorem stream_order:
  "synthesize idle ([Ask, Retrieved rs] @ map Token ts @ [BackendDone]) =
     \<lparr> synth_phase = Complete, grounding = rs, emitted = map Content ts @ [Sources rs, Done] \<rparr> \<and>
   (synth_phase (synthesize idle sigs) = Complete \<longrightarrow>
      (\<exists>toks. subseq toks (tokens_of sigs) \<and>
         emitted (synthesize idle sigs) =
           map Content toks @ [Sources (grounding (synthesize idle sigs)), Done]))"
proof -
  have canon: "synthesize idle ([Ask, Retrieved rs] @ map Token ts @ [BackendDone]) =
     \<lparr> synth_phase = Complete, grounding = rs, emitted = map Content ts @ [Sources rs, Done] \<rparr>"
  proof -
    let ?g = "\<lparr> synth_phase = Generating, grounding = rs, emitted = [] \<rparr>"
    have "synthesize idle ([Ask, Retrieved rs] @ map Token ts @ [BackendDone]) =
            synthesize (synthesize ?g (map Token ts)) [BackendDone]"
      by (simp add: synthesize_def idle_def)
    also have "\<dots> = synthesize (?g\<lparr> emitted := map Content ts \<rparr>) [BackendDone]"
      by (simp add: synthesize_tokens)
    also have "\<dots> = \<lparr> synth_phase = Complete, grounding = rs, emitted = map Content ts @ [Sources rs, Done] \<rparr>"
      by (simp add: synthesize_def emit_def)
    finally show ?thesis .
  qed
  have inv: "synth_inv (synthesize idle sigs)"
    by (rule synth_inv_run) (simp add: synth_inv_def idle_def)
  have shape: "\<exists>toks. subseq toks (tokens_of sigs) \<and>
         emitted (synthesize idle sigs) =
           map Content toks @ [Sources (grounding (synthesize idle sigs)), Done]"
    if c: "synth_phase (synthesize idle sigs) = Complete"
  proof -
    from contents_run [of sigs idle] obtain sub where
      sub: "subseq sub (tokens_of sigs)" "contents_of (emitted (synthesize idle sigs)) = sub"
      by (auto simp: idle_def contents_of_def)
    from inv c have "emitted (synthesize idle sigs) =
        map Content (contents_of (emitted (synthesize idle sigs))) @
          [Sources (grounding (synthesize idle sigs)), Done]"
      by (simp add: synth_inv_def)
    with sub show ?thesis by auto
  qed
  from canon shape show ?thesis by blast
qed

theorem stream_order_witness:
  "synth_phase (synthesize idle [Ask, Retrieved [], Token ''A'', Token ''B'', Token ''C'', BackendDone]) =
     Complete \<and>
   emitted (synthesize idle [Ask, Retrieved [], Token ''A'', Token ''B'', Token ''C'', BackendDone]) =
     [Content ''A'', Content ''B'', Content ''C'', Sources [], Done]"
  using stream_order [of "[]" "[''A'', ''B'', ''C'']" "[]"]
  by simp

end
